theory Spec2Isabelle
  imports Complex_Main "HOL-Library.Multiset"
begin

section \<open>Python values used by the compose service\<close>

text \<open>
  The service (\<^verbatim>\<open>src/app/service.py\<close>) reads catalogue rows whose cells are strings and
  turns them into numbers with Python's \<^verbatim>\<open>float()\<close>. A Python float is a binary64
  number: it is modelled by its exact rational value, or by one of the three special
  values that \<^verbatim>\<open>float()\<close> also accepts (\<^verbatim>\<open>float("inf")\<close>, \<^verbatim>\<open>float("-inf")\<close>,
  \<^verbatim>\<open>float("nan")\<close>). Every operation that produces a float (reading a literal, a
  product, a quotient, a difference) rounds its exact result to the nearest binary64
  number, ties to the even significand (\<open>round64\<close>). Negative zero is identified with
  zero.
\<close>

datatype pyfloat = Fin rat | PInf | NInf | NaN

datatype pyerr = ValueError | OverflowError | AttributeError

text \<open>Python's \<^verbatim>\<open><\<close> on floats: every comparison with NaN is false.\<close>

fun py_lt :: "pyfloat \<Rightarrow> pyfloat \<Rightarrow> bool" where
  "py_lt NaN _ = False"
| "py_lt _ NaN = False"
| "py_lt (Fin a) (Fin b) = (a < b)"
| "py_lt (Fin a) PInf = True"
| "py_lt (Fin a) NInf = False"
| "py_lt PInf _ = False"
| "py_lt NInf NInf = False"
| "py_lt NInf _ = True"

text \<open>Python's \<^verbatim>\<open><=\<close> on floats.\<close>

definition py_le :: "pyfloat \<Rightarrow> pyfloat \<Rightarrow> bool" where
  "py_le a b = (a \<noteq> NaN \<and> b \<noteq> NaN \<and> \<not> py_lt b a)"

text \<open>Truth value of a float (\<^verbatim>\<open>bool(x)\<close>): only zero is false; NaN is true.\<close>

definition truthy :: "pyfloat \<Rightarrow> bool" where
  "truthy x = (x \<noteq> Fin 0)"

text \<open>\<^verbatim>\<open>round(x)\<close> with one argument: the nearest integer, ties to the even one.\<close>

definition round_half_even :: "rat \<Rightarrow> int" where
  "round_half_even q =
     (let f = \<lfloor>q\<rfloor>; d = q - of_int f
      in if d < 1 / 2 then f
         else if 1 / 2 < d then f + 1
         else if even f then f else f + 1)"

fun py_round :: "pyfloat \<Rightarrow> pyerr + int" where
  "py_round (Fin q) = Inr (round_half_even q)"
| "py_round NaN = Inl ValueError"
| "py_round PInf = Inl OverflowError"
| "py_round NInf = Inl OverflowError"

text \<open>\<^verbatim>\<open>int(x)\<close> on a float truncates towards zero.\<close>

definition trunc :: "rat \<Rightarrow> int" where
  "trunc q = (if 0 \<le> q then \<lfloor>q\<rfloor> else - \<lfloor>- q\<rfloor>)"

fun py_int :: "pyfloat \<Rightarrow> pyerr + int" where
  "py_int (Fin q) = Inr (trunc q)"
| "py_int NaN = Inl ValueError"
| "py_int PInf = Inl OverflowError"
| "py_int NInf = Inl OverflowError"

subsection \<open>Rounding to binary64\<close>

text \<open>The number of binary digits of a natural number.\<close>

fun bitlen :: "nat \<Rightarrow> nat" where
  "bitlen n = (if n = 0 then 0 else Suc (bitlen (n div 2)))"

declare bitlen.simps [simp del]

text \<open>For \<open>a > 0\<close>, the exponent \<open>e\<close> with \<open>2^e \<le> a < 2^(e+1)\<close>.\<close>

definition binade :: "rat \<Rightarrow> int" where
  "binade a =
     (if 1 \<le> a then int (bitlen (nat \<lfloor>a\<rfloor>)) - 1
      else - int (bitlen (nat (\<lceil>1 / a\<rceil> - 1))))"

definition pow2 :: "int \<Rightarrow> rat" where
  "pow2 e = (if 0 \<le> e then 2 ^ nat e else 1 / 2 ^ nat (- e))"

text \<open>
  The binary64 number nearest to \<open>q\<close>. A number of exponent \<open>e\<close> has 53 significant
  bits, so its neighbours are \<open>2^(e-52)\<close> apart; below \<open>2^-1022\<close> the spacing stays
  \<open>2^-1074\<close>. A result of magnitude \<open>2^1024\<close> is an infinity.
\<close>

definition round64 :: "rat \<Rightarrow> pyfloat" where
  "round64 q =
     (if q = 0 then Fin 0
      else (let a = \<bar>q\<bar>;
                ulp = pow2 (max (binade a) (- 1022) - 52);
                v = of_int (round_half_even (a / ulp)) * ulp
            in if pow2 1024 \<le> v then (if q < 0 then NInf else PInf)
               else Fin (if q < 0 then - v else v)))"

text \<open>
  Multiplying or dividing a float by a positive constant (\<^verbatim>\<open>price * 0.75\<close>,
  \<^verbatim>\<open>mb / 1024\<close>): the exact result is rounded; the special values are unchanged.
\<close>

fun py_scale :: "pyfloat \<Rightarrow> rat \<Rightarrow> pyfloat" where
  "py_scale (Fin q) c = round64 (q * c)"
| "py_scale x c = x"

text \<open>\<^verbatim>\<open>x - n\<close> for a float and an integer that is itself a binary64 number.\<close>

fun py_minus_int :: "pyfloat \<Rightarrow> int \<Rightarrow> pyfloat" where
  "py_minus_int (Fin q) n = round64 (q - of_int n)"
| "py_minus_int x n = x"

text \<open>The binary64 number that the literal \<^verbatim>\<open>1e-6\<close> denotes.\<close>

definition float_1e_6 :: rat where
  "float_1e_6 = 4722366482869645 / 2 ^ 72"

subsection \<open>Decimal rendering of integers\<close>

definition digit_char :: "nat \<Rightarrow> char" where
  "digit_char d = ''0123456789'' ! d"

fun str_nat :: "nat \<Rightarrow> string" where
  "str_nat n = (if n < 10 then [digit_char n] else str_nat (n div 10) @ [digit_char (n mod 10)])"

declare str_nat.simps [simp del]

definition str_int :: "int \<Rightarrow> string" where
  "str_int i = (if i < 0 then CHR ''-'' # str_nat (nat (- i)) else str_nat (nat i))"

subsection \<open>Parsing: \<^verbatim>\<open>float(s)\<close> on a string\<close>

text \<open>
  \<^verbatim>\<open>float(s)\<close> strips surrounding whitespace, allows single underscores between digits,
  and then accepts an optional sign followed by \<^verbatim>\<open>inf\<close>, \<^verbatim>\<open>infinity\<close> or \<^verbatim>\<open>nan\<close> in any
  case, or by a decimal number with an optional exponent. Anything else raises
  ValueError, which is \<open>None\<close> here. A character is a code point below 256. The
  whitespace that \<^verbatim>\<open>float()\<close> strips is then tab to carriage return (9 to 13), the
  space, and the two code points 133 and 160; the codes 28 to 31 are not stripped.
\<close>

definition is_space :: "char \<Rightarrow> bool" where
  "is_space c =
     (let n = (of_char c :: nat) in (9 \<le> n \<and> n \<le> 13) \<or> n = 32 \<or> n = 133 \<or> n = 160)"

definition is_digit :: "char \<Rightarrow> bool" where
  "is_digit c = (let n = (of_char c :: nat) in 48 \<le> n \<and> n \<le> 57)"

definition digit_val :: "char \<Rightarrow> nat" where
  "digit_val c = of_char c - 48"

text \<open>
  Case conversion acts on the ASCII letters and leaves every other character as it is,
  as \<^verbatim>\<open>str.upper\<close> does on an ASCII string.
\<close>

definition lower_char :: "char \<Rightarrow> char" where
  "lower_char c =
     (case map_of (zip ''ABCDEFGHIJKLMNOPQRSTUVWXYZ'' ''abcdefghijklmnopqrstuvwxyz'') c of
        None \<Rightarrow> c | Some l \<Rightarrow> l)"

definition upper_char :: "char \<Rightarrow> char" where
  "upper_char c =
     (case map_of (zip ''abcdefghijklmnopqrstuvwxyz'' ''ABCDEFGHIJKLMNOPQRSTUVWXYZ'') c of
        None \<Rightarrow> c | Some u \<Rightarrow> u)"

definition upper :: "string \<Rightarrow> string" where
  "upper s = map upper_char s"

definition strip :: "string \<Rightarrow> string" where
  "strip s = rev (dropWhile is_space (rev (dropWhile is_space s)))"

text \<open>
  Underscores: each must stand directly between two digits; they are then dropped.
  The first argument is the previous character, if any.
\<close>

fun drop_underscores :: "char option \<Rightarrow> string \<Rightarrow> string option" where
  "drop_underscores prev [] = (if prev = Some CHR ''_'' then None else Some [])"
| "drop_underscores prev (c # cs) =
     (if c = CHR ''_'' then
        (case prev of
           Some p \<Rightarrow> if is_digit p then drop_underscores (Some c) cs else None
         | None \<Rightarrow> None)
      else if prev = Some CHR ''_'' \<and> \<not> is_digit c then None
      else map_option ((#) c) (drop_underscores (Some c) cs))"

definition nat_of_digits :: "string \<Rightarrow> nat" where
  "nat_of_digits ds = foldl (\<lambda>acc c. 10 * acc + digit_val c) 0 ds"

text \<open>An optional sign: the factor and the rest of the string.\<close>

fun split_sign :: "string \<Rightarrow> bool \<times> string" where
  "split_sign (c # cs) =
     (if c = CHR ''-'' then (True, cs) else if c = CHR ''+'' then (False, cs) else (False, c # cs))"
| "split_sign [] = (False, [])"

text \<open>The exponent part: empty, or \<^verbatim>\<open>e\<close>/\<^verbatim>\<open>E\<close>, an optional sign and at least one digit.\<close>

definition parse_exponent :: "string \<Rightarrow> int option" where
  "parse_exponent s =
     (case s of
        [] \<Rightarrow> Some 0
      | c # cs \<Rightarrow>
          if c = CHR ''e'' \<or> c = CHR ''E'' then
            (let (neg, ds) = split_sign cs
             in if ds \<noteq> [] \<and> list_all is_digit ds
                then Some (if neg then - int (nat_of_digits ds) else int (nat_of_digits ds))
                else None)
          else None)"

text \<open>
  The float of a decimal literal with the given sign: its value rounded to binary64 (a
  literal of magnitude at least \<open>2^1024 - 2^970\<close> is an infinity).
\<close>

definition of_magnitude :: "bool \<Rightarrow> rat \<Rightarrow> pyfloat" where
  "of_magnitude neg q = round64 (if neg then - q else q)"

definition pow10 :: "int \<Rightarrow> rat" where
  "pow10 e = (if 0 \<le> e then 10 ^ nat e else 1 / 10 ^ nat (- e))"

definition parse_decimal :: "string \<Rightarrow> rat option" where
  "parse_decimal s =
     (let ip = takeWhile is_digit s; r1 = dropWhile is_digit s;
          (fp, r2) = (case r1 of
                        c # cs \<Rightarrow> if c = CHR ''.'' then (takeWhile is_digit cs, dropWhile is_digit cs)
                                  else ([], r1)
                      | [] \<Rightarrow> ([], r1))
      in if ip = [] \<and> fp = [] then None
         else case parse_exponent r2 of
                None \<Rightarrow> None
              | Some e \<Rightarrow> Some (of_nat (nat_of_digits (ip @ fp)) * pow10 (e - int (length fp))))"

definition py_float :: "string \<Rightarrow> pyfloat option" where
  "py_float s =
     (case drop_underscores None (strip s) of
        None \<Rightarrow> None
      | Some t \<Rightarrow>
          (let (neg, body) = split_sign t; word = map lower_char body
           in if word = ''inf'' \<or> word = ''infinity'' then Some (if neg then NInf else PInf)
              else if word = ''nan'' then Some NaN
              else map_option (of_magnitude neg) (parse_decimal body)))"

subsection \<open>Sorting, minimum and random choice\<close>

text \<open>
  \<^verbatim>\<open>sorted(xs, key=k)\<close> and \<^verbatim>\<open>list.sort(key=k)\<close> are stable sorts: elements whose keys
  compare equal keep their order. Python specifies the result only when \<^verbatim>\<open><\<close> orders the
  keys totally, which for floats means that no key is NaN; on such keys the
  insertion sort below returns the one list a stable sort can return.
\<close>

primrec insort_py :: "('a \<Rightarrow> pyfloat) \<Rightarrow> 'a \<Rightarrow> 'a list \<Rightarrow> 'a list" where
  "insort_py key x [] = [x]"
| "insort_py key x (y # ys) =
     (if py_lt (key y) (key x) then y # insort_py key x ys else x # y # ys)"

definition py_sorted :: "('a \<Rightarrow> pyfloat) \<Rightarrow> 'a list \<Rightarrow> 'a list" where
  "py_sorted key xs = foldr (insort_py key) xs []"

text \<open>
  \<^verbatim>\<open>sorted(xs, key=k, reverse=True)\<close> keeps stability: the list is reversed, sorted
  and reversed again.
\<close>

definition py_sorted_rev :: "('a \<Rightarrow> pyfloat) \<Rightarrow> 'a list \<Rightarrow> 'a list" where
  "py_sorted_rev key xs = rev (py_sorted key (rev xs))"

text \<open>
  \<^verbatim>\<open>min(xs, key=k)\<close> on a non-empty list: the first element is kept until a later one
  has a strictly smaller key.
\<close>

fun min_from :: "('a \<Rightarrow> pyfloat) \<Rightarrow> 'a \<Rightarrow> 'a list \<Rightarrow> 'a" where
  "min_from key best [] = best"
| "min_from key best (x # xs) = min_from key (if py_lt (key x) (key best) then x else best) xs"

text \<open>
  \<^verbatim>\<open>random.choice(xs)\<close> on a non-empty list returns \<^verbatim>\<open>xs[i]\<close> for a random index
  \<open>i < len(xs)\<close>. The random draw is an argument of the model; every property below
  holds for every draw.
\<close>

definition choice :: "nat \<Rightarrow> 'a list \<Rightarrow> 'a" where
  "choice draw xs = xs ! (draw mod length xs)"

section \<open>The compose service\<close>

subsection \<open>Data\<close>

text \<open>
  A catalogue record is a row of a CSV file read by \<^verbatim>\<open>csv.DictReader\<close>: a dictionary
  from column names to cells. A cell is a string, or \<^verbatim>\<open>None\<close> where the line of the file
  was shorter than the header (the reader fills the missing cells with \<^verbatim>\<open>None\<close>).
  Payloads of the vector backend are taken to have the same shape.
\<close>

type_synonym row = "string \<rightharpoonup> string option"

text \<open>\<^verbatim>\<open>item.get(k)\<close>: \<^verbatim>\<open>None\<close> for a missing key and for a cell that holds \<^verbatim>\<open>None\<close>.\<close>

definition dict_get :: "row \<Rightarrow> string \<Rightarrow> string option" where
  "dict_get item k = (case item k of None \<Rightarrow> None | Some cell \<Rightarrow> cell)"

record catalog_data =
  offres :: "row list"
  smartphones :: "row list"
  version :: "string option"

text \<open>
  The vector backend: \<^verbatim>\<open>scroll\<close> takes a collection name, the field conditions
  (\<^verbatim>\<open>key\<close>, \<^verbatim>\<open>MatchValue\<close>) and the limit, and returns points, each with an optional
  payload, or raises. \<open>qdrant\<close> is \<open>None\<close> when the client could not be created;
  \<open>rest_available\<close> says that the \<^verbatim>\<open>qdrant_client\<close> package was importable.
\<close>

datatype backend_error = BackendError

type_synonym field_condition = "string \<times> string"

type_synonym scroll = "string \<Rightarrow> field_condition list \<Rightarrow> nat \<Rightarrow> backend_error + row option list"

record service =
  catalog :: catalog_data
  offres_collection :: string
  smartphones_collection :: string
  qdrant :: "scroll option"
  rest_available :: bool

text \<open>Values stored in the payload dictionaries handed to the text generator.\<close>

datatype jval = JNull | JStr string | JInt int | JFloat pyfloat

record payload =
  p_persona :: string
  p_famille :: string
  p_cta :: string
  p_deadline :: string
  p_offer_context :: "string \<rightharpoonup> jval"
  p_promo_context :: "(string \<rightharpoonup> jval) option"
  p_links :: "string \<rightharpoonup> string"

definition ROTATING_CTAS :: "string list" where
  "ROTATING_CTAS = [''*6'', ''*5'', ''*4'', ''*3'', ''*2'', ''*1'', ''*22'', ''*88'', ''Forfait_Business'']"

definition MONTHS_FR :: "string list" where
  "MONTHS_FR = [''janvier'', ''fevrier'', ''mars'', ''avril'', ''mai'', ''juin'', ''juillet'',
     ''aout'', ''septembre'', ''octobre'', ''novembre'', ''decembre'']"

subsection \<open>Helpers\<close>

text \<open>
  \<^verbatim>\<open>_deadline_eom_fr\<close>: the last day of the current month. The current date
  (year, month \<open>1..12\<close>) is an argument.
\<close>

definition leap_year :: "nat \<Rightarrow> bool" where
  "leap_year y = (y mod 4 = 0 \<and> (y mod 100 \<noteq> 0 \<or> y mod 400 = 0))"

definition days_in_month :: "nat \<Rightarrow> nat \<Rightarrow> nat" where
  "days_in_month y m =
     (if m = 2 then (if leap_year y then 29 else 28)
      else if m = 4 \<or> m = 6 \<or> m = 9 \<or> m = 11 then 30 else 31)"

definition deadline_eom_fr :: "nat \<times> nat \<Rightarrow> string" where
  "deadline_eom_fr today =
     (case today of (y, m) \<Rightarrow> str_nat (days_in_month y m) @ '' '' @ MONTHS_FR ! (m - 1))"

text \<open>
  \<^verbatim>\<open>f"{x:.1f}"\<close>: one digit after the point, the exact value rounded to the nearest
  tenth, ties to even.
\<close>

fun fmt_1f :: "pyfloat \<Rightarrow> string" where
  "fmt_1f (Fin q) =
     (let t = nat (round_half_even (\<bar>q\<bar> * 10))
      in (if q < 0 then ''-'' else '''') @ str_nat (t div 10) @ ''.'' @ str_nat (t mod 10))"
| "fmt_1f PInf = ''inf''"
| "fmt_1f NInf = ''-inf''"
| "fmt_1f NaN = ''nan''"

text \<open>\<^verbatim>\<open>s.replace(".0", "")\<close>.\<close>

fun replace_dot0 :: "string \<Rightarrow> string" where
  "replace_dot0 (a # b # cs) =
     (if a = CHR ''.'' \<and> b = CHR ''0'' then replace_dot0 cs else a # replace_dot0 (b # cs))"
| "replace_dot0 cs = cs"

text \<open>\<^verbatim>\<open>abs(gb - round(gb)) < 1e-6\<close>, for the integer \<open>r\<close> that \<^verbatim>\<open>round(gb)\<close> returned.\<close>

definition near_integer :: "pyfloat \<Rightarrow> int \<Rightarrow> bool" where
  "near_integer gb r =
     (case py_minus_int gb r of Fin d \<Rightarrow> \<bar>d\<bar> < float_1e_6 | _ \<Rightarrow> False)"

definition fmt_volume :: "string option \<Rightarrow> pyerr + string option" where
  "fmt_volume value =
     (case value of
        None \<Rightarrow> Inr None
      | Some s \<Rightarrow>
          if s = '''' then Inr None
          else (case py_float s of
                  None \<Rightarrow> Inr None
                | Some mb \<Rightarrow>
                    if py_le (Fin 1024) mb then
                      (let gb = py_scale mb (1 / 1024)
                       in case py_round gb of
                            Inl e \<Rightarrow> Inl e
                          | Inr r \<Rightarrow>
                              if near_integer gb r then Inr (Some (str_int r @ '' Go''))
                              else Inr (Some (replace_dot0 (fmt_1f gb @ '' Go''))))
                    else (case py_int mb of
                            Inl e \<Rightarrow> Inl e
                          | Inr i \<Rightarrow> Inr (Some (str_int i @ '' Mo'')))))"

text \<open>
  In \<^verbatim>\<open>_fmt_minutes\<close> the conversion \<^verbatim>\<open>int(float(value))\<close> stands inside the
  \<^verbatim>\<open>try\<close>, whose handler catches ValueError only.
\<close>

definition fmt_minutes :: "string option \<Rightarrow> pyerr + string option" where
  "fmt_minutes value =
     (case value of
        None \<Rightarrow> Inr None
      | Some s \<Rightarrow>
          if s = '''' then Inr None
          else (case py_float s of
                  None \<Rightarrow> Inr None
                | Some x \<Rightarrow>
                    (case py_int x of
                       Inl e \<Rightarrow> if e = ValueError then Inr None else Inl e
                     | Inr mins \<Rightarrow>
                         if mins < 0 then Inr (Some ''illimite'')
                         else Inr (Some (str_int mins @ '' min'')))))"

definition pick_discount :: "pyfloat option \<Rightarrow> pyerr + int option" where
  "pick_discount price =
     (case price of
        None \<Rightarrow> Inr None
      | Some p \<Rightarrow>
          (case py_round (py_scale p (3 / 4)) of
             Inl e \<Rightarrow> Inl e
           | Inr promo \<Rightarrow> Inr (Some (max promo 1))))"

text \<open>\<^verbatim>\<open>key in upper\<close>: substring test.\<close>

fun contains :: "string \<Rightarrow> string \<Rightarrow> bool" where
  "contains key [] = (key = [])"
| "contains key (c # cs) = (take (length key) (c # cs) = key \<or> contains key cs)"

definition brand_lookup :: "(string \<times> string) list" where
  "brand_lookup = [(''IPHONE'', ''APPLE''), (''APPLE'', ''APPLE''), (''SAMSUNG'', ''SAMSUNG''),
     (''XIAOMI'', ''XIAOMI''), (''OPPO'', ''OPPO''), (''HONOR'', ''HONOR''), (''TECNO'', ''TECNO'')]"

fun first_match :: "(string \<times> string) list \<Rightarrow> string \<Rightarrow> string" where
  "first_match [] up = ''''"
| "first_match ((key, mapped) # rest) up = (if contains key up then mapped else first_match rest up)"

definition norm_brand :: "string \<Rightarrow> string" where
  "norm_brand value = first_match brand_lookup (upper value)"

definition safe_cast :: "string option \<Rightarrow> pyfloat option" where
  "safe_cast value =
     (case value of
        None \<Rightarrow> None
      | Some s \<Rightarrow> if s = '''' then None else py_float s)"

subsection \<open>Internals\<close>

text \<open>
  \<^verbatim>\<open>item.get(k, d)\<close>: the default stands in for a missing key only; a cell that holds
  \<^verbatim>\<open>None\<close> is returned as it is.
\<close>

definition get_default :: "row \<Rightarrow> string \<Rightarrow> string \<Rightarrow> string option" where
  "get_default item k d = (case item k of None \<Rightarrow> Some d | Some cell \<Rightarrow> cell)"

text \<open>
  \<^verbatim>\<open>item.get("marque", "").upper()\<close>: calling \<^verbatim>\<open>upper\<close> on \<^verbatim>\<open>None\<close> raises
  AttributeError.
\<close>

definition marque_upper :: "row \<Rightarrow> pyerr + string" where
  "marque_upper item =
     (case get_default item ''marque'' '''' of
        None \<Rightarrow> Inl AttributeError
      | Some m \<Rightarrow> Inr (upper m))"

text \<open>
  The comprehension \<^verbatim>\<open>[item for item in records if item.get("marque", "").upper() ==
  brand]\<close>: the records are read from left to right, and the first read that raises ends
  the comprehension.
\<close>

fun brand_items :: "row list \<Rightarrow> string \<Rightarrow> pyerr + row list" where
  "brand_items [] brand = Inr []"
| "brand_items (item # rest) brand =
     (case marque_upper item of
        Inl e \<Rightarrow> Inl e
      | Inr m \<Rightarrow>
          (case brand_items rest brand of
             Inl e \<Rightarrow> Inl e
           | Inr keep \<Rightarrow> Inr (if m = brand then item # keep else keep)))"

text \<open>Truthiness of an optional string: \<^verbatim>\<open>None\<close> and \<^verbatim>\<open>""\<close> are false.\<close>

definition nonempty :: "string option \<Rightarrow> string option" where
  "nonempty v = (case v of None \<Rightarrow> None | Some s \<Rightarrow> if s = '''' then None else Some s)"

text \<open>
  The sort key \<^verbatim>\<open>self._safe_cast(item.get("prix_dh")) or 0\<close>: an absent or
  unparseable price, and a price of zero, give 0.
\<close>

definition price_or_0 :: "row \<Rightarrow> pyfloat" where
  "price_or_0 item =
     (case safe_cast (dict_get item ''prix_dh'') of
        None \<Rightarrow> Fin 0
      | Some x \<Rightarrow> if truthy x then x else Fin 0)"

text \<open>
  \<^verbatim>\<open>_query_qdrant\<close>: an exception of \<^verbatim>\<open>scroll\<close> is caught and gives the empty list;
  a point without payload counts as the empty dictionary.
\<close>

definition payload_of :: "row option \<Rightarrow> row" where
  "payload_of point = (case point of None \<Rightarrow> Map.empty | Some d \<Rightarrow> d)"

definition query_qdrant :: "service \<Rightarrow> string \<Rightarrow> field_condition list \<Rightarrow> row list" where
  "query_qdrant svc collection filters =
     (case qdrant svc of
        None \<Rightarrow> []
      | Some scroll \<Rightarrow>
          if \<not> rest_available svc then []
          else (case scroll collection filters 50 of
                  Inl exc \<Rightarrow> []
                | Inr points \<Rightarrow> py_sorted price_or_0 (map payload_of points)))"

definition local_offres :: "service \<Rightarrow> string \<Rightarrow> string \<Rightarrow> row list" where
  "local_offres svc famille cta =
     (let strict = filter (\<lambda>off. dict_get off ''cta'' = Some cta \<and> dict_get off ''famille'' = Some famille)
                     (offres (catalog svc));
          fallback = filter (\<lambda>off. dict_get off ''cta'' = Some cta) (offres (catalog svc));
          candidates = (if strict \<noteq> [] then strict else fallback)
      in py_sorted price_or_0 candidates)"

definition local_smartphones :: "service \<Rightarrow> string \<Rightarrow> pyerr + row list" where
  "local_smartphones svc brand =
     (let records = smartphones (catalog svc)
      in if brand \<noteq> '''' then
           (case brand_items records brand of
              Inl e \<Rightarrow> Inl e
            | Inr filtered \<Rightarrow>
                Inr (py_sorted price_or_0 (if filtered \<noteq> [] then filtered else records)))
         else Inr (py_sorted price_or_0 records))"

definition query_offre :: "service \<Rightarrow> string \<Rightarrow> string \<Rightarrow> row list" where
  "query_offre svc famille cta =
     (let candidates =
            (if qdrant svc \<noteq> None \<and> rest_available svc then
               (let first = query_qdrant svc (offres_collection svc)
                              [(''type'', ''offre''), (''cta'', cta), (''famille'', famille)]
                in if first = [] then
                     query_qdrant svc (offres_collection svc)
                       [(''type'', ''offre''), (''cta'', cta)]
                   else first)
             else [])
      in if candidates = [] then local_offres svc famille cta else candidates)"

text \<open>
  In \<^verbatim>\<open>_query_smartphone\<close> the call of \<^verbatim>\<open>_local_smartphones\<close> stands after the
  \<^verbatim>\<open>try\<close>: what it raises reaches the caller.
\<close>

definition query_smartphone :: "service \<Rightarrow> string \<Rightarrow> pyerr + row list" where
  "query_smartphone svc brand =
     (let candidates =
            (if qdrant svc \<noteq> None \<and> rest_available svc then
               query_qdrant svc (smartphones_collection svc)
                 ((''type'', ''smartphone'') # (if brand \<noteq> '''' then [(''marque'', brand)] else []))
             else [])
      in if candidates = [] then local_smartphones svc brand else Inr candidates)"

text \<open>The sort key \<^verbatim>\<open>volume_mb\<close> of \<^verbatim>\<open>_rank_offres\<close>.\<close>

definition volume_mb :: "row \<Rightarrow> pyfloat" where
  "volume_mb item =
     (case nonempty (dict_get item ''volume'') of
        None \<Rightarrow> Fin 0
      | Some s \<Rightarrow> (case py_float s of None \<Rightarrow> Fin 0 | Some x \<Rightarrow> x))"

definition rank_offres :: "row list \<Rightarrow> string \<Rightarrow> string \<Rightarrow> string \<Rightarrow> row list" where
  "rank_offres candidates persona famille cta =
     (if candidates = [] then []
      else if famille = ''USAGE_Internet''
              \<and> (persona = ''PROFIL_Internet'' \<or> persona = ''PROFIL_ReseauxSociaux'') then
        py_sorted_rev volume_mb candidates
      else if take 7 famille = ''RISQUE_'' \<or> take 6 persona = ''CHURN_''
              \<or> persona = ''PROFIL_Econome'' then
        py_sorted price_or_0 candidates
      else if cta \<in> set ROTATING_CTAS then candidates
      else candidates)"

text \<open>
  The choice among the ranked offers in \<^verbatim>\<open>compose_offre\<close> (lines 128 to 139). The
  key of the minimum is the price, \<^verbatim>\<open>float("inf")\<close> when it is absent.
\<close>

definition price_or_inf :: "row \<Rightarrow> pyfloat" where
  "price_or_inf item = (case safe_cast (dict_get item ''prix_dh'') of None \<Rightarrow> PInf | Some x \<Rightarrow> x)"

definition select_offre :: "row list \<Rightarrow> string \<Rightarrow> string \<Rightarrow> nat \<Rightarrow> row option" where
  "select_offre ranked persona famille draw =
     (case ranked of
        [] \<Rightarrow> None
      | first # rest \<Rightarrow>
          if persona = ''PROFIL_Econome'' then Some (min_from price_or_inf first rest)
          else if famille \<noteq> ''OPPORTUNITE_Achat_Equipement'' \<and> 1 < length ranked then
            Some (choice draw ranked)
          else Some first)"

text \<open>\<^verbatim>\<open>int(float(s))\<close> outside any \<^verbatim>\<open>try\<close>.\<close>

definition int_of_cell :: "string \<Rightarrow> pyerr + int" where
  "int_of_cell s = (case py_float s of None \<Rightarrow> Inl ValueError | Some x \<Rightarrow> py_int x)"

definition int_of_cell_opt :: "string option \<Rightarrow> pyerr + int option" where
  "int_of_cell_opt v =
     (case nonempty v of
        None \<Rightarrow> Inr None
      | Some s \<Rightarrow> (case int_of_cell s of Inl e \<Rightarrow> Inl e | Inr i \<Rightarrow> Inr (Some i)))"

text \<open>\<^verbatim>\<open>if v: d[k] = v\<close>.\<close>

definition put :: "string \<Rightarrow> jval option \<Rightarrow> (string \<rightharpoonup> jval) \<Rightarrow> (string \<rightharpoonup> jval)" where
  "put k v d = (case v of None \<Rightarrow> d | Some x \<Rightarrow> d(k \<mapsto> x))"

text \<open>
  The dictionary \<^verbatim>\<open>offer\<close> after the assignments of lines 140 to 159, given the
  formatted volume and minutes and the converted SMS count and validity; \<open>name0\<close> is
  the generic name already stored under \<^verbatim>\<open>"offre"\<close>.
\<close>

definition filled_context ::
  "row \<Rightarrow> string \<Rightarrow> string option \<Rightarrow> string option \<Rightarrow> int option \<Rightarrow> int option
     \<Rightarrow> (string \<rightharpoonup> jval)" where
  "filled_context chosen name0 volume minutes sms validite =
     put ''details'' (map_option JStr (nonempty (dict_get chosen ''link'')))
       (put ''destinations'' (map_option JStr (nonempty (dict_get chosen ''zone'')))
       (put ''prix_dh'' (map_option JFloat (safe_cast (dict_get chosen ''prix_dh'')))
       (put ''validite'' (map_option (\<lambda>d. JStr (str_int d @ '' jours'')) validite)
       (put ''sms'' (map_option JInt sms)
       (put ''minutes'' (map_option JStr (nonempty minutes))
       (put ''volume'' (map_option JStr (nonempty volume))
       [''offre'' \<mapsto> JStr (case nonempty (dict_get chosen ''libelle'') of
                              None \<Rightarrow> name0 | Some l \<Rightarrow> l)]))))))"

text \<open>
  The fields copied from the chosen offer (lines 140 to 159), with the price. The
  conversions run in the order of the source, and the first that raises ends the call.
\<close>

definition fill_offer :: "row \<Rightarrow> string \<Rightarrow> pyerr + (string \<rightharpoonup> jval) \<times> pyfloat option" where
  "fill_offer chosen name0 =
     (case fmt_volume (dict_get chosen ''volume'') of
        Inl e \<Rightarrow> Inl e
      | Inr volume \<Rightarrow>
      (case fmt_minutes (dict_get chosen ''minutes'') of
        Inl e \<Rightarrow> Inl e
      | Inr minutes \<Rightarrow>
      (case int_of_cell_opt (dict_get chosen ''sms'') of
        Inl e \<Rightarrow> Inl e
      | Inr sms \<Rightarrow>
      (case int_of_cell_opt (dict_get chosen ''validite_jours'') of
        Inl e \<Rightarrow> Inl e
      | Inr validite \<Rightarrow>
          Inr (filled_context chosen name0 volume minutes sms validite,
               safe_cast (dict_get chosen ''prix_dh''))))))"

definition base_llm_payload ::
  "nat \<times> nat \<Rightarrow> string \<Rightarrow> string \<Rightarrow> string \<Rightarrow> (string \<rightharpoonup> jval) \<Rightarrow> string \<Rightarrow> pyfloat option
     \<Rightarrow> pyerr + payload" where
  "base_llm_payload today persona famille cta offer_context link price =
     (case pick_discount price of
        Inl e \<Rightarrow> Inl e
      | Inr discount \<Rightarrow>
          Inr \<lparr> p_persona = persona, p_famille = famille, p_cta = cta,
                p_deadline = deadline_eom_fr today,
                p_offer_context = offer_context,
                p_promo_context =
                  (case discount of
                     None \<Rightarrow> None
                   | Some d \<Rightarrow> if d \<noteq> 0 then Some [''prix_promo_dh'' \<mapsto> JInt d] else None),
                p_links = [''details'' \<mapsto> link] \<rparr>)"

definition details_or :: "(string \<rightharpoonup> jval) \<Rightarrow> string \<Rightarrow> string" where
  "details_or offer d =
     (case offer ''details'' of Some (JStr s) \<Rightarrow> if s = '''' then d else s | _ \<Rightarrow> d)"

definition compose_offre ::
  "service \<Rightarrow> nat \<times> nat \<Rightarrow> string \<Rightarrow> string \<Rightarrow> string \<Rightarrow> nat \<Rightarrow> pyerr + payload" where
  "compose_offre svc today persona famille cta draw =
     (let candidates = query_offre svc famille cta;
          name0 = ''Pass '' @ cta;
          filled =
            (case select_offre (rank_offres candidates persona famille cta) persona famille draw of
               None \<Rightarrow> Inr ([''offre'' \<mapsto> JStr name0], None)
             | Some chosen \<Rightarrow> fill_offer chosen name0)
      in case filled of
           Inl e \<Rightarrow> Inl e
         | Inr (offer, price) \<Rightarrow>
             base_llm_payload today persona famille cta offer
               (details_or offer ''https://bit.ly/Recharge_IAM'') price)"

subsection \<open>Smartphone selection\<close>

text \<open>The pairs \<open>(item, price)\<close> of the candidates whose price is not \<^verbatim>\<open>None\<close>.\<close>

fun priced_values :: "row list \<Rightarrow> (row \<times> pyfloat) list" where
  "priced_values [] = []"
| "priced_values (item # rest) =
     (case safe_cast (dict_get item ''prix_dh'') of
        None \<Rightarrow> priced_values rest
      | Some p \<Rightarrow> (item, p) # priced_values rest)"

definition sorted_asc :: "row list \<Rightarrow> row list" where
  "sorted_asc candidates =
     (if priced_values candidates \<noteq> [] then map fst (py_sorted snd (priced_values candidates))
      else candidates)"

text \<open>
  The pool of persona \<^verbatim>\<open>OPPORTUNITE_AchatNouveaute\<close> with a brand (lines 350 to 359);
  reading the brand of the candidates may raise.
\<close>

definition brand_pool :: "row list \<Rightarrow> string \<Rightarrow> pyerr + row list" where
  "brand_pool candidates brand =
     (case brand_items candidates brand of
        Inl e \<Rightarrow> Inl e
      | Inr items \<Rightarrow>
          Inr (if items \<noteq> [] then
                 (if priced_values items \<noteq> [] then
                    map fst (take 3 (py_sorted_rev snd (priced_values items)))
                  else take 3 items)
               else []))"

text \<open>The value of \<^verbatim>\<open>pool\<close> when \<^verbatim>\<open>random.choice\<close> is reached (lines 334 to 364).\<close>

definition smartphone_pool :: "row list \<Rightarrow> string \<Rightarrow> string \<Rightarrow> pyerr + row list" where
  "smartphone_pool candidates persona brand =
     (case (if persona = ''OPPORTUNITE_AchatSmartphone'' then Inr (take 15 (sorted_asc candidates))
            else if persona = ''OPPORTUNITE_PerformanceSmartphone'' then
              Inr (take 15 (rev (sorted_asc candidates)))
            else if persona = ''OPPORTUNITE_AchatNouveaute'' \<and> brand \<noteq> '''' then
              brand_pool candidates brand
            else Inr (sorted_asc candidates)) of
        Inl e \<Rightarrow> Inl e
      | Inr pool \<Rightarrow> Inr (if pool = [] then sorted_asc candidates else pool))"

definition select_smartphone_candidate ::
  "row list \<Rightarrow> string \<Rightarrow> string \<Rightarrow> nat \<Rightarrow> pyerr + row option" where
  "select_smartphone_candidate candidates persona brand draw =
     (if candidates = [] then Inr None
      else (case smartphone_pool candidates persona brand of
              Inl e \<Rightarrow> Inl e
            | Inr pool \<Rightarrow> Inr (if pool = [] then None else Some (choice draw pool))))"

text \<open>
  In \<^verbatim>\<open>compose_smartphone\<close> the test \<^verbatim>\<open>if chosen:\<close> is false for \<^verbatim>\<open>None\<close> and for an
  empty dictionary.
\<close>

definition smartphone_payload ::
  "nat \<times> nat \<Rightarrow> string \<Rightarrow> string \<Rightarrow> row option \<Rightarrow> pyerr + payload" where
  "smartphone_payload today persona famille selected =
     (let generic = base_llm_payload today persona famille '''' [''offre'' \<mapsto> JStr ''Smartphone'']
                      ''https://offres.iam.ma/smartphones'' None
      in case selected of
           None \<Rightarrow> generic
         | Some chosen \<Rightarrow>
             if chosen = Map.empty then generic
             else
             (let price = safe_cast (dict_get chosen ''prix_dh'');
                  offer = put ''prix_dh'' (map_option JFloat price)
                            [''offre'' \<mapsto> JStr ''Smartphone'',
                             ''modele'' \<mapsto> (case dict_get chosen ''modele'' of None \<Rightarrow> JNull | Some m \<Rightarrow> JStr m),
                             ''capacite'' \<mapsto> (case dict_get chosen ''capacite'' of None \<Rightarrow> JNull | Some c \<Rightarrow> JStr c)];
                  link = (case nonempty (dict_get chosen ''link'') of
                            None \<Rightarrow> ''https://offres.iam.ma/smartphones'' | Some l \<Rightarrow> l);
                  cta = (case nonempty (dict_get chosen ''cta'') of None \<Rightarrow> '''' | Some c \<Rightarrow> c)
              in base_llm_payload today persona famille cta offer link price))"

definition compose_smartphone ::
  "service \<Rightarrow> nat \<times> nat \<Rightarrow> string \<Rightarrow> string \<Rightarrow> string \<Rightarrow> nat \<Rightarrow> pyerr + payload" where
  "compose_smartphone svc today persona famille hset_brand draw =
     (let brand = norm_brand hset_brand
      in case query_smartphone svc brand of
           Inl e \<Rightarrow> Inl e
         | Inr candidates \<Rightarrow>
             (case select_smartphone_candidate candidates persona brand draw of
                Inl e \<Rightarrow> Inl e
              | Inr selected \<Rightarrow> smartphone_payload today persona famille selected))"

section \<open>Notions of the specification and example data\<close>

text \<open>
  The vector backend gives nothing: the client is missing, the package is missing, or
  every \<^verbatim>\<open>scroll\<close> raises or returns no point.
\<close>

definition adapter_silent :: "service \<Rightarrow> bool" where
  "adapter_silent svc =
     (case qdrant svc of
        None \<Rightarrow> True
      | Some scroll \<Rightarrow>
          \<not> rest_available svc
          \<or> (\<forall>collection filters.
                case scroll collection filters 50 of Inl exc \<Rightarrow> True | Inr points \<Rightarrow> points = []))"

text \<open>
  One query of the vector backend gives nothing: the client or the package is missing,
  or this \<^verbatim>\<open>scroll\<close> raises or returns no point.
\<close>

definition query_yields_nothing :: "service \<Rightarrow> string \<Rightarrow> field_condition list \<Rightarrow> bool" where
  "query_yields_nothing svc collection filters =
     (case qdrant svc of
        None \<Rightarrow> True
      | Some scroll \<Rightarrow>
          \<not> rest_available svc
          \<or> (case scroll collection filters 50 of Inl exc \<Rightarrow> True | Inr points \<Rightarrow> points = []))"

text \<open>
  The ranking rules of \<^verbatim>\<open>_rank_offres\<close> as the specification numbers them: rule 1 sorts
  by data volume, rule 2 by price.
\<close>

definition rule_volume :: "string \<Rightarrow> string \<Rightarrow> bool" where
  "rule_volume persona famille =
     (famille = ''USAGE_Internet''
      \<and> (persona = ''PROFIL_Internet'' \<or> persona = ''PROFIL_ReseauxSociaux''))"

definition rule_price :: "string \<Rightarrow> string \<Rightarrow> bool" where
  "rule_price persona famille =
     (take 7 famille = ''RISQUE_'' \<or> take 6 persona = ''CHURN_'' \<or> persona = ''PROFIL_Econome'')"

text \<open>\<^verbatim>\<open>math.isfinite\<close>: a number, neither NaN nor an infinity.\<close>

fun is_finite :: "pyfloat \<Rightarrow> bool" where
  "is_finite (Fin q) = True"
| "is_finite x = False"

text \<open>Every price that parses is a number.\<close>

definition finite_prices :: "row list \<Rightarrow> bool" where
  "finite_prices rows =
     list_all (\<lambda>c. case safe_cast (dict_get c ''prix_dh'') of None \<Rightarrow> True | Some x \<Rightarrow> is_finite x) rows"

text \<open>
  The pool as C3 and the specification describe it: the first 15 candidates in
  ascending order of price, a candidate without price counting as \<open>+\<infinity>\<close> and so sorting
  last.
\<close>

definition spec_pool_absent_last :: "row list \<Rightarrow> row list" where
  "spec_pool_absent_last cands = take 15 (py_sorted price_or_inf cands)"

text \<open>
  Two smartphones, the second without price, and a third that comes from a line of the
  file that ends before the brand column.
\<close>

definition phone_a :: row where
  "phone_a = [''modele'' \<mapsto> Some ''A15'', ''marque'' \<mapsto> Some ''Samsung'',
     ''prix_dh'' \<mapsto> Some ''10'']"

definition phone_b :: row where
  "phone_b = [''modele'' \<mapsto> Some ''B1'', ''marque'' \<mapsto> Some ''Oppo'']"

definition phone_short :: row where
  "phone_short = [''modele'' \<mapsto> Some ''C3'', ''marque'' \<mapsto> None, ''prix_dh'' \<mapsto> None]"

text \<open>
  Three offers of the call-to-action \<^verbatim>\<open>*3\<close> with volumes 500, 2000, 1000 and prices 50,
  10, 30, and a fourth without price.
\<close>

definition offer_500 :: row where
  "offer_500 = [''cta'' \<mapsto> Some ''*3'', ''famille'' \<mapsto> Some ''USAGE_Internet'',
     ''libelle'' \<mapsto> Some ''Pass 500'', ''volume'' \<mapsto> Some ''500'', ''prix_dh'' \<mapsto> Some ''50'']"

definition offer_2000 :: row where
  "offer_2000 = [''cta'' \<mapsto> Some ''*3'', ''famille'' \<mapsto> Some ''USAGE_Internet'',
     ''libelle'' \<mapsto> Some ''Pass 2000'', ''volume'' \<mapsto> Some ''2000'', ''prix_dh'' \<mapsto> Some ''10'']"

definition offer_1000 :: row where
  "offer_1000 = [''cta'' \<mapsto> Some ''*3'', ''famille'' \<mapsto> Some ''USAGE_Internet'',
     ''libelle'' \<mapsto> Some ''Pass 1000'', ''volume'' \<mapsto> Some ''1000'', ''prix_dh'' \<mapsto> Some ''30'']"

definition offer_noprice :: row where
  "offer_noprice = [''cta'' \<mapsto> Some ''*3'', ''famille'' \<mapsto> Some ''USAGE_Internet'',
     ''libelle'' \<mapsto> Some ''Pass X'']"

text \<open>Offers priced 100, 1, 0.5 and 7.333333333333333, each under its own call-to-action.\<close>

definition offer_100 :: row where
  "offer_100 = [''cta'' \<mapsto> Some ''*7'', ''libelle'' \<mapsto> Some ''Pass 100'', ''prix_dh'' \<mapsto> Some ''100'']"

definition offer_1 :: row where
  "offer_1 = [''cta'' \<mapsto> Some ''*8'', ''libelle'' \<mapsto> Some ''Pass 1'', ''prix_dh'' \<mapsto> Some ''1'']"

definition offer_half :: row where
  "offer_half = [''cta'' \<mapsto> Some ''*6'', ''libelle'' \<mapsto> Some ''Pass 0.5'', ''prix_dh'' \<mapsto> Some ''0.5'']"

definition offer_7333 :: row where
  "offer_7333 = [''cta'' \<mapsto> Some ''*9'', ''libelle'' \<mapsto> Some ''Pass 7'',
     ''prix_dh'' \<mapsto> Some ''7.333333333333333'']"

text \<open>
  A backend whose every call raises, a backend that holds smartphones only, and
  services over small catalogues.
\<close>

definition failing_scroll :: scroll where
  "failing_scroll collection filters limit = Inl BackendError"

definition phones_only_scroll :: scroll where
  "phones_only_scroll collection filters limit =
     (if collection = ''smartphones'' then Inr [Some phone_a] else Inr [])"

definition svc_three :: service where
  "svc_three = \<lparr> catalog = \<lparr> offres = [offer_500, offer_2000, offer_1000], smartphones = [],
                               version = None \<rparr>,
                 offres_collection = ''offres'', smartphones_collection = ''smartphones'',
                 qdrant = Some phones_only_scroll, rest_available = True \<rparr>"

definition svc_noprice :: service where
  "svc_noprice = \<lparr> catalog = \<lparr> offres = [offer_2000, offer_noprice], smartphones = [],
                                 version = None \<rparr>,
                   offres_collection = ''offres'', smartphones_collection = ''smartphones'',
                   qdrant = None, rest_available = False \<rparr>"

definition svc_empty :: service where
  "svc_empty = \<lparr> catalog = \<lparr> offres = [], smartphones = [], version = None \<rparr>,
                 offres_collection = ''offres'', smartphones_collection = ''smartphones'',
                 qdrant = Some failing_scroll, rest_available = True \<rparr>"

definition svc_promo :: service where
  "svc_promo = \<lparr> catalog = \<lparr> offres = [offer_100, offer_1, offer_half, offer_7333, offer_noprice],
                               smartphones = [phone_a], version = None \<rparr>,
                 offres_collection = ''offres'', smartphones_collection = ''smartphones'',
                 qdrant = None, rest_available = False \<rparr>"

section \<open>Auxiliary facts\<close>

subsection \<open>Order facts\<close>

lemma py_lt_irrefl: "\<not> py_lt a a"
  by (cases a) auto

lemma py_lt_asym: "py_lt a b \<Longrightarrow> \<not> py_lt b a"
  by (cases a; cases b) auto

lemma py_lt_not_nan: "py_lt a b \<Longrightarrow> a \<noteq> NaN \<and> b \<noteq> NaN"
  by (cases a; cases b) auto

lemma py_lt_imp_le: "py_lt a b \<Longrightarrow> py_le a b"
  using py_lt_asym py_lt_not_nan by (auto simp: py_le_def)

lemma py_le_refl: "a \<noteq> NaN \<Longrightarrow> py_le a a"
  by (simp add: py_le_def py_lt_irrefl)

lemma py_le_trans: "py_le a b \<Longrightarrow> py_le b c \<Longrightarrow> py_le a c"
  by (cases a; cases b; cases c) (auto simp: py_le_def)

lemma not_lt_imp_le: "a \<noteq> NaN \<Longrightarrow> b \<noteq> NaN \<Longrightarrow> \<not> py_lt b a \<Longrightarrow> py_le a b"
  by (simp add: py_le_def)

lemma py_le_Fin: "py_le (Fin p) (Fin q) = (p \<le> q)"
  by (auto simp: py_le_def)

subsection \<open>The sort\<close>

lemma mset_insort_py: "mset (insort_py key x xs) = add_mset x (mset xs)"
  by (induction xs) auto

lemma mset_py_sorted: "mset (py_sorted key xs) = mset xs"
  by (induction xs) (auto simp: py_sorted_def mset_insort_py)

lemma set_py_sorted: "set (py_sorted key xs) = set xs"
  using mset_py_sorted [of key xs] by (metis set_mset_mset)

lemma length_py_sorted: "length (py_sorted key xs) = length xs"
  using mset_py_sorted [of key xs] by (metis size_mset)

lemma py_sorted_Nil_iff: "py_sorted key xs = [] \<longleftrightarrow> xs = []"
  using length_py_sorted [of key xs] by (metis length_0_conv)

lemma set_insort_py: "set (insort_py key x xs) = insert x (set xs)"
  using mset_insort_py [of key x xs] by (metis set_mset_add_mset_insert set_mset_mset)

lemma sorted_insort_py:
  assumes "sorted_wrt (\<lambda>a b. py_le (key a) (key b)) xs"
    and "key x \<noteq> NaN" and "\<forall>y\<in>set xs. key y \<noteq> NaN"
  shows "sorted_wrt (\<lambda>a b. py_le (key a) (key b)) (insort_py key x xs)"
  using assms
proof (induction xs)
  case Nil
  then show ?case by simp
next
  case (Cons y ys)
  show ?case
  proof (cases "py_lt (key y) (key x)")
    case True
    have "\<forall>z\<in>set (insort_py key x ys). py_le (key y) (key z)"
      using Cons.prems True by (auto simp: set_insort_py py_lt_imp_le)
    moreover have "sorted_wrt (\<lambda>a b. py_le (key a) (key b)) (insort_py key x ys)"
      using Cons by simp
    ultimately show ?thesis using True by simp
  next
    case False
    then have xy: "py_le (key x) (key y)"
      using Cons.prems by (simp add: not_lt_imp_le)
    then have "\<forall>z\<in>set ys. py_le (key x) (key z)"
      using Cons.prems by (auto intro: py_le_trans)
    then show ?thesis using False xy Cons.prems by simp
  qed
qed

lemma sorted_py_sorted:
  "\<forall>x\<in>set xs. key x \<noteq> NaN \<Longrightarrow> sorted_wrt (\<lambda>a b. py_le (key a) (key b)) (py_sorted key xs)"
proof (induction xs)
  case Nil
  then show ?case by (simp add: py_sorted_def)
next
  case (Cons x xs)
  have "py_sorted key (x # xs) = insort_py key x (py_sorted key xs)"
    by (simp add: py_sorted_def)
  then show ?case
    using Cons sorted_insort_py [of key "py_sorted key xs" x] by (simp add: set_py_sorted)
qed

lemma mset_py_sorted_rev: "mset (py_sorted_rev key xs) = mset xs"
  by (simp add: py_sorted_rev_def mset_py_sorted)

lemma sorted_py_sorted_rev:
  "\<forall>x\<in>set xs. key x \<noteq> NaN \<Longrightarrow> sorted_wrt (\<lambda>a b. py_le (key b) (key a)) (py_sorted_rev key xs)"
  using sorted_py_sorted [of "rev xs" key] by (simp add: py_sorted_rev_def sorted_wrt_rev)

lemma sorted_wrt_take_drop:
  "sorted_wrt P xs \<Longrightarrow> x \<in> set (take n xs) \<Longrightarrow> y \<in> set (drop n xs) \<Longrightarrow> P x y"
  using sorted_wrt_append [of P "take n xs" "drop n xs"] by simp

subsection \<open>The minimum\<close>

lemma min_from_mem: "min_from key b xs \<in> set (b # xs)"
  by (induction xs arbitrary: b) auto

lemma min_from_le_best:
  "key b \<noteq> NaN \<Longrightarrow> \<forall>x\<in>set xs. key x \<noteq> NaN \<Longrightarrow> py_le (key (min_from key b xs)) (key b)"
proof (induction xs arbitrary: b)
  case Nil
  then show ?case by (simp add: py_le_refl)
next
  case (Cons x xs)
  show ?case
  proof (cases "py_lt (key x) (key b)")
    case True
    then have "py_le (key (min_from key x xs)) (key x)" using Cons by simp
    then show ?thesis using True by (auto intro: py_le_trans py_lt_imp_le)
  next
    case False
    then show ?thesis using Cons by simp
  qed
qed

lemma min_from_least:
  "key b \<noteq> NaN \<Longrightarrow> \<forall>x\<in>set xs. key x \<noteq> NaN \<Longrightarrow>
     \<forall>c\<in>set (b # xs). py_le (key (min_from key b xs)) (key c)"
proof (induction xs arbitrary: b)
  case Nil
  then show ?case by (simp add: py_le_refl)
next
  case (Cons x xs)
  let ?b' = "if py_lt (key x) (key b) then x else b"
  have nn: "key ?b' \<noteq> NaN" "\<forall>y\<in>set xs. key y \<noteq> NaN" using Cons.prems by auto
  have ih: "\<forall>c\<in>set (?b' # xs). py_le (key (min_from key ?b' xs)) (key c)"
    using Cons.IH [OF nn] .
  have b'b: "py_le (key ?b') (key b)" using Cons.prems by (simp add: py_lt_imp_le py_le_refl)
  have b'x: "py_le (key ?b') (key x)" using Cons.prems by (simp add: not_lt_imp_le py_le_refl)
  have m: "py_le (key (min_from key ?b' xs)) (key ?b')" using ih by simp
  show ?case
    using ih m b'b b'x by (auto intro: py_le_trans)
qed

subsection \<open>Random choice\<close>

lemma choice_mem: "xs \<noteq> [] \<Longrightarrow> choice draw xs \<in> set xs"
  by (simp add: choice_def)


subsection \<open>Rounding\<close>

lemma round_half_even_nearest: "\<bar>of_int (round_half_even q) - q\<bar> \<le> 1 / 2"
proof -
  have "of_int \<lfloor>q\<rfloor> \<le> q" "q < of_int \<lfloor>q\<rfloor> + 1" by linarith+
  then show ?thesis
    by (auto simp: round_half_even_def Let_def)
qed

lemma round_half_even_nonneg: "0 \<le> q \<Longrightarrow> 0 \<le> round_half_even q"
  by (auto simp: round_half_even_def Let_def)

lemma pow2_powi: "pow2 e = 2 powi e"
  by (simp add: pow2_def power_int_def inverse_eq_divide power_divide)

lemma pow2_pos: "0 < pow2 e"
  by (simp add: pow2_powi)

lemma pow2_mono: "e \<le> e' \<Longrightarrow> pow2 e \<le> pow2 e'"
  by (simp add: pow2_powi power_int_increasing)

lemma bitlen_0: "bitlen 0 = 0"
  by (simp add: bitlen.simps)

lemma bitlen_Suc_0: "bitlen (Suc 0) = Suc 0"
  using bitlen.simps [of "Suc 0"] by (simp add: bitlen_0)

lemma bitlen_double: "0 < n \<Longrightarrow> bitlen (2 * n) = Suc (bitlen n)"
  using bitlen.simps [of "2 * n"] by simp

lemma bitlen_double_Suc: "bitlen (Suc (2 * n)) = Suc (bitlen n)"
  using bitlen.simps [of "Suc (2 * n)"] by simp

lemma bitlen_numeral:
  "bitlen (numeral Num.One) = Suc 0"
  "bitlen (numeral (Num.Bit0 n)) = Suc (bitlen (numeral n))"
  "bitlen (numeral (Num.Bit1 n)) = Suc (bitlen (numeral n))"
proof -
  show "bitlen (numeral Num.One) = Suc 0" by (simp add: bitlen_Suc_0)
  have "(numeral (Num.Bit0 n) :: nat) = 2 * numeral n" by simp
  then show "bitlen (numeral (Num.Bit0 n)) = Suc (bitlen (numeral n))"
    using bitlen_double [of "numeral n"] by simp
  have "(numeral (Num.Bit1 n) :: nat) = Suc (2 * numeral n)" by simp
  then show "bitlen (numeral (Num.Bit1 n)) = Suc (bitlen (numeral n))"
    using bitlen_double_Suc [of "numeral n"] by simp
qed

lemma bitlen_bound: "n < 2 ^ k \<Longrightarrow> bitlen n \<le> k"
proof (induction k arbitrary: n)
  case 0
  then show ?case by (simp add: bitlen_0)
next
  case (Suc k)
  show ?case
  proof (cases "n = 0")
    case True
    then show ?thesis by (simp add: bitlen_0)
  next
    case False
    have "n div 2 < 2 ^ k" using Suc.prems by auto
    then have "bitlen (n div 2) \<le> k" by (rule Suc.IH)
    then show ?thesis using False bitlen.simps [of n] by simp
  qed
qed

lemma binade_le:
  assumes "a < 2 ^ 1024"
  shows "binade a \<le> 1023"
proof (cases "1 \<le> a")
  case True
  have "\<lfloor>a\<rfloor> < 2 ^ 1024" using assms by (simp add: floor_less_iff)
  then have "nat \<lfloor>a\<rfloor> < 2 ^ 1024" using True by (simp add: nat_less_iff)
  then have "bitlen (nat \<lfloor>a\<rfloor>) \<le> 1024" by (rule bitlen_bound)
  then show ?thesis using True by (simp add: binade_def)
next
  case False
  then show ?thesis by (simp add: binade_def)
qed

text \<open>A finite result of \<open>round64\<close> is below \<open>2^1024\<close> in magnitude.\<close>

lemma round64_Fin_bound:
  assumes "round64 q = Fin x"
  shows "\<bar>x\<bar> < pow2 1024"
proof (cases "q = 0")
  case True
  then show ?thesis using assms pow2_pos [of 1024] by (simp add: round64_def)
next
  case False
  define ulp where "ulp = pow2 (max (binade \<bar>q\<bar>) (- 1022) - 52)"
  define v where "v = of_int (round_half_even (\<bar>q\<bar> / ulp)) * ulp"
  have "0 < ulp" by (simp add: ulp_def pow2_pos)
  then have "0 \<le> round_half_even (\<bar>q\<bar> / ulp)"
    by (intro round_half_even_nonneg) simp
  then have v0: "0 \<le> v" using \<open>0 < ulp\<close> by (simp add: v_def)
  have "round64 q = (if pow2 1024 \<le> v then (if q < 0 then NInf else PInf)
                     else Fin (if q < 0 then - v else v))"
    using False by (simp add: round64_def Let_def ulp_def v_def)
  then have "v < pow2 1024" "x = (if q < 0 then - v else v)"
    using assms by (auto split: if_splits)
  then show ?thesis using v0 by auto
qed

text \<open>Three quarters of a finite binary64 number round to a finite number.\<close>

lemma round64_no_overflow:
  assumes "\<bar>q\<bar> \<le> 3 / 4 * pow2 1024"
  shows "\<exists>x. round64 q = Fin x"
proof (cases "q = 0")
  case True
  then show ?thesis by (simp add: round64_def)
next
  case False
  define ulp where "ulp = pow2 (max (binade \<bar>q\<bar>) (- 1022) - 52)"
  define v where "v = of_int (round_half_even (\<bar>q\<bar> / ulp)) * ulp"
  have p1024: "pow2 1024 = 2 ^ 1024" by (simp add: pow2_def)
  have pos: "0 < ulp" by (simp add: ulp_def pow2_pos)
  have "\<bar>q\<bar> < 2 ^ 1024" using assms p1024 pow2_pos [of 1024] by simp
  then have "binade \<bar>q\<bar> \<le> 1023" by (rule binade_le)
  then have "max (binade \<bar>q\<bar>) (- 1022) - 52 \<le> 971" by simp
  then have "ulp \<le> pow2 971" unfolding ulp_def by (rule pow2_mono)
  then have ulp971: "ulp \<le> 2 ^ 971" by (simp add: pow2_def)
  have "of_int (round_half_even (\<bar>q\<bar> / ulp)) \<le> \<bar>q\<bar> / ulp + 1 / 2"
    using round_half_even_nearest [of "\<bar>q\<bar> / ulp"] by linarith
  then have "of_int (round_half_even (\<bar>q\<bar> / ulp)) * ulp \<le> (\<bar>q\<bar> / ulp + 1 / 2) * ulp"
    using pos by (simp add: mult_right_mono)
  also have "\<dots> = \<bar>q\<bar> + ulp / 2" using pos by (simp add: field_simps)
  finally have "v \<le> \<bar>q\<bar> + ulp / 2" by (simp add: v_def)
  also have "\<dots> \<le> 3 / 4 * 2 ^ 1024 + 2 ^ 971 / 2" using assms ulp971 p1024 by simp
  also have "\<dots> < (2 ^ 1024 :: rat)" by simp
  finally have "v < pow2 1024" by (simp add: p1024)
  moreover have "round64 q = (if pow2 1024 \<le> v then (if q < 0 then NInf else PInf)
                     else Fin (if q < 0 then - v else v))"
    using False by (simp add: round64_def Let_def ulp_def v_def)
  ultimately show ?thesis by simp
qed

lemma py_float_Fin_bound: "py_float s = Some (Fin p) \<Longrightarrow> \<bar>p\<bar> < pow2 1024"
  by (auto simp: py_float_def of_magnitude_def Let_def dest: round64_Fin_bound
      split: option.splits prod.splits if_splits)

lemma safe_cast_Fin_bound: "safe_cast v = Some (Fin p) \<Longrightarrow> \<bar>p\<bar> < pow2 1024"
  by (auto simp: safe_cast_def dest: py_float_Fin_bound split: option.splits if_splits)

text \<open>The product \<^verbatim>\<open>price * 0.75\<close> of a price read from a cell is a finite float.\<close>

lemma three_quarters_finite:
  assumes "safe_cast v = Some (Fin p)"
  shows "\<exists>x. py_scale (Fin p) (3 / 4) = Fin x"
proof -
  have "\<bar>p\<bar> < pow2 1024" using assms by (rule safe_cast_Fin_bound)
  then have "\<bar>p * (3 / 4)\<bar> \<le> 3 / 4 * pow2 1024" by (simp add: abs_mult)
  then show ?thesis using round64_no_overflow [of "p * (3 / 4)"] by simp
qed

text \<open>
  The rounding error of \<open>round64\<close>: half a unit in the last place, which is at most
  \<open>2^-53\<close> of the magnitude for a normal number and \<open>2^-1075\<close> for a subnormal one.
\<close>

lemma bitlen_gt: "n < 2 ^ bitlen n"
proof (induction n rule: bitlen.induct)
  case (1 n)
  show ?case
  proof (cases "n = 0")
    case True
    then show ?thesis by (simp add: bitlen_0)
  next
    case False
    then have "n div 2 < 2 ^ bitlen (n div 2)" by (rule 1)
    then have "n < 2 * 2 ^ bitlen (n div 2)" by linarith
    then show ?thesis using False bitlen.simps [of n] by simp
  qed
qed

lemma bitlen_le: "0 < n \<Longrightarrow> 2 ^ (bitlen n - 1) \<le> n"
proof (induction n rule: bitlen.induct)
  case (1 n)
  then have n: "n \<noteq> 0" by simp
  have b: "bitlen n = Suc (bitlen (n div 2))" using n bitlen.simps [of n] by simp
  show ?case
  proof (cases "n div 2 = 0")
    case True
    then show ?thesis using b n by (simp add: bitlen_0)
  next
    case False
    then have "2 ^ (bitlen (n div 2) - 1) \<le> n div 2" using 1(1) [OF n] by simp
    moreover have "bitlen (n div 2) \<noteq> 0" using False bitlen.simps [of "n div 2"] by simp
    then have "(2::nat) ^ bitlen (n div 2) = 2 * 2 ^ (bitlen (n div 2) - 1)"
      by (cases "bitlen (n div 2)") simp_all
    ultimately have "2 ^ bitlen (n div 2) \<le> n" by linarith
    then show ?thesis by (simp add: b)
  qed
qed

lemma binade_lower:
  assumes "0 < a"
  shows "pow2 (binade a) \<le> a"
proof (cases "1 \<le> a")
  case True
  define n where "n = nat \<lfloor>a\<rfloor>"
  have n0: "0 < n" using True by (simp add: n_def)
  then have "bitlen n \<noteq> 0" using bitlen.simps [of n] by simp
  then have "binade a = int (bitlen n - 1)" using True by (simp add: binade_def n_def)
  then have "pow2 (binade a) = 2 ^ (bitlen n - 1)" by (simp add: pow2_def)
  also have "\<dots> \<le> of_nat n" using bitlen_le [OF n0] by (metis of_nat_le_iff of_nat_numeral of_nat_power)
  also have "\<dots> \<le> a" using True by (simp add: n_def)
  finally show ?thesis .
next
  case False
  define m where "m = nat (\<lceil>1 / a\<rceil> - 1)"
  have "1 < 1 / a" using False assms by simp
  then have c: "1 \<le> \<lceil>1 / a\<rceil> - 1" by (simp add: less_ceiling_iff)
  have "binade a = - int (bitlen m)" using False by (simp add: binade_def m_def)
  then have p: "pow2 (binade a) = 1 / 2 ^ bitlen m" by (simp add: pow2_def)
  have "1 / a \<le> of_int \<lceil>1 / a\<rceil>" by (rule le_of_int_ceiling)
  also have "\<dots> = of_nat m + 1"
  proof -
    have "0 \<le> \<lceil>1 / a\<rceil> - 1" using c by linarith
    then have "(of_nat m :: rat) = of_int (\<lceil>1 / a\<rceil> - 1)"
      unfolding m_def by (rule of_nat_nat)
    then show ?thesis by simp
  qed
  also have "\<dots> \<le> 2 ^ bitlen m"
  proof -
    have "Suc m \<le> 2 ^ bitlen m" using bitlen_gt [of m] by simp
    then have "(of_nat (Suc m) :: rat) \<le> of_nat (2 ^ bitlen m)" by (simp only: of_nat_le_iff)
    then show ?thesis by simp
  qed
  finally have "1 / a \<le> 2 ^ bitlen m" .
  then have "1 / 2 ^ bitlen m \<le> a" using assms by (simp add: field_simps)
  then show ?thesis by (simp add: p)
qed

lemma round64_error:
  assumes "round64 q = Fin x"
  shows "\<bar>x - q\<bar> \<le> max (\<bar>q\<bar> / 2 ^ 53) (1 / 2 ^ 1075)"
proof (cases "q = 0")
  case True
  then show ?thesis using assms by (simp add: round64_def)
next
  case False
  define e where "e = max (binade \<bar>q\<bar>) (- 1022)"
  define ulp where "ulp = pow2 (e - 52)"
  define v where "v = of_int (round_half_even (\<bar>q\<bar> / ulp)) * ulp"
  have pos: "0 < ulp" by (simp add: ulp_def pow2_pos)
  have "round64 q = (if pow2 1024 \<le> v then (if q < 0 then NInf else PInf)
                     else Fin (if q < 0 then - v else v))"
    using False by (simp add: round64_def Let_def ulp_def v_def e_def)
  then have x: "x = (if q < 0 then - v else v)" using assms by (auto split: if_splits)
  have "\<bar>of_int (round_half_even (\<bar>q\<bar> / ulp)) - \<bar>q\<bar> / ulp\<bar> * ulp \<le> 1 / 2 * ulp"
    using round_half_even_nearest [of "\<bar>q\<bar> / ulp"] pos by (simp add: mult_right_mono)
  moreover have "\<bar>of_int (round_half_even (\<bar>q\<bar> / ulp)) - \<bar>q\<bar> / ulp\<bar> * ulp = \<bar>v - \<bar>q\<bar>\<bar>"
  proof -
    have "v - \<bar>q\<bar> = (of_int (round_half_even (\<bar>q\<bar> / ulp)) - \<bar>q\<bar> / ulp) * ulp"
      using pos by (simp add: v_def field_simps)
    then show ?thesis using pos by (simp add: abs_mult)
  qed
  ultimately have d: "\<bar>v - \<bar>q\<bar>\<bar> \<le> ulp / 2" by simp
  have xq: "\<bar>x - q\<bar> = \<bar>v - \<bar>q\<bar>\<bar>" using x by auto
  have u: "ulp = pow2 e / 2 ^ 52"
    by (simp add: ulp_def pow2_powi power_int_diff)
  have "pow2 e \<le> max \<bar>q\<bar> (1 / 2 ^ 1022)"
  proof (cases "- 1022 \<le> binade \<bar>q\<bar>")
    case True
    then have "e = binade \<bar>q\<bar>" by (simp add: e_def)
    then have "pow2 e \<le> \<bar>q\<bar>" using binade_lower [of "\<bar>q\<bar>"] False by simp
    then show ?thesis by simp
  next
    case False
    then have "e = - 1022" by (simp add: e_def)
    then have "pow2 e = 1 / 2 ^ 1022" by (simp add: pow2_def)
    then show ?thesis by simp
  qed
  then have "ulp / 2 \<le> max \<bar>q\<bar> (1 / 2 ^ 1022) / 2 ^ 53"
    by (simp add: u field_simps)
  also have "\<dots> = max (\<bar>q\<bar> / 2 ^ 53) (1 / 2 ^ 1075)"
    by (simp add: max_def field_simps)
  finally show ?thesis using d xq by simp
qed

subsection \<open>Evaluation\<close>

lemma floor_rat_numeral_div: "\<lfloor>(numeral a :: rat) / numeral b\<rfloor> = numeral a div numeral b"
  by (metis floor_divide_of_int_eq of_int_numeral)

lemma floor_rat_neg_numeral_div:
  "\<lfloor>- ((numeral a :: rat) / numeral b)\<rfloor> = - numeral a div numeral b"
  by (metis floor_divide_of_int_eq of_int_numeral of_int_minus minus_divide_left)

lemmas round64_eval =
  round64_def binade_def pow2_def round_half_even_def Let_def bitlen_numeral bitlen_0
  bitlen_Suc_0 floor_rat_numeral_div floor_rat_neg_numeral_div ceiling_def

lemmas py_float_eval =
  py_float_def strip_def is_space_def is_digit_def lower_char_def parse_decimal_def
  parse_exponent_def nat_of_digits_def digit_val_def pow10_def of_magnitude_def
  round64_eval

lemmas fmt_eval =
  fmt_volume_def fmt_minutes_def pick_discount_def py_le_def trunc_def near_integer_def
  float_1e_6_def str_int_def str_nat.simps digit_char_def round64_eval

text \<open>The literal \<^verbatim>\<open>1e-6\<close>, and the float of \<^verbatim>\<open>7.333333333333333\<close> with its product.\<close>

lemma float_1e_6_rounds: "round64 (1 / 1000000) = Fin float_1e_6"
  by (simp add: float_1e_6_def round64_eval)

lemma py_float_7333:
  "py_float ''7.333333333333333'' = Some (Fin (8256599316845909 / 2 ^ 50))"
  by (simp add: py_float_eval)

lemma three_quarters_7333: "py_scale (Fin (8256599316845909 / 2 ^ 50)) (3 / 4) = Fin (11 / 2)"
  by (simp add: round64_eval)

lemma safe_cast_examples:
  "safe_cast (Some ''100'') = Some (Fin 100)"
  "safe_cast (Some ''1'') = Some (Fin 1)"
  "safe_cast (Some ''10'') = Some (Fin 10)"
  "safe_cast (Some ''30'') = Some (Fin 30)"
  "safe_cast (Some ''50'') = Some (Fin 50)"
  "safe_cast None = None"
  by (simp_all add: safe_cast_def py_float_eval)

lemma pick_discount_examples:
  "pick_discount (Some (Fin 100)) = Inr (Some 75)"
  "pick_discount (Some (Fin 1)) = Inr (Some 1)"
  "pick_discount (Some (Fin 10)) = Inr (Some 8)"
  "pick_discount (Some (Fin (8256599316845909 / 2 ^ 50))) = Inr (Some 6)"
  "pick_discount None = Inr None"
  by (simp_all add: pick_discount_def round64_eval)

subsection \<open>Smartphone pools\<close>

lemma priced_values_fst: "set (map fst (priced_values cs)) \<subseteq> set cs"
  by (induction cs) (auto split: option.splits)

lemma priced_values_price:
  "(item, p) \<in> set (priced_values cs) \<Longrightarrow> safe_cast (dict_get item ''prix_dh'') = Some p"
  by (induction cs) (auto split: option.splits)

lemma mset_priced_values:
  "mset (map fst (priced_values cs)) = mset (filter (\<lambda>r. safe_cast (dict_get r ''prix_dh'') \<noteq> None) cs)"
  by (induction cs) (auto split: option.splits)

lemma priced_values_Nil_iff:
  "priced_values cs = [] \<longleftrightarrow> (\<forall>c\<in>set cs. safe_cast (dict_get c ''prix_dh'') = None)"
  by (induction cs) (auto split: option.splits)

lemma set_sorted_asc: "set (sorted_asc cs) \<subseteq> set cs"
  using priced_values_fst [of cs] by (auto simp: sorted_asc_def set_py_sorted)

lemma sorted_asc_Nil_iff: "sorted_asc cs = [] \<longleftrightarrow> cs = []"
  by (auto simp: sorted_asc_def py_sorted_Nil_iff)

lemma set_brand_items: "brand_items cs brand = Inr items \<Longrightarrow> set items \<subseteq> set cs"
proof (induction cs arbitrary: items)
  case Nil
  then show ?case by simp
next
  case (Cons c cs)
  then show ?case
    by (auto split: sum.splits if_splits)
qed

lemma brand_items_no_match:
  "\<forall>c\<in>set cs. \<exists>m. marque_upper c = Inr m \<and> m \<noteq> brand \<Longrightarrow> brand_items cs brand = Inr []"
  by (induction cs) auto

lemma brand_items_total:
  "\<forall>c\<in>set cs. \<exists>m. marque_upper c = Inr m \<Longrightarrow> \<exists>items. brand_items cs brand = Inr items"
  by (induction cs) auto

lemma set_brand_pool:
  assumes "brand_pool cs brand = Inr pool"
  shows "set pool \<subseteq> set cs"
proof -
  obtain items where i: "brand_items cs brand = Inr items"
    and p: "pool = (if items \<noteq> [] then
                      (if priced_values items \<noteq> [] then
                         map fst (take 3 (py_sorted_rev snd (priced_values items)))
                       else take 3 items)
                    else [])"
    using assms by (auto simp: brand_pool_def split: sum.splits)
  have sub: "set items \<subseteq> set cs" using i by (rule set_brand_items)
  have "set (map fst (take 3 (py_sorted_rev snd (priced_values items)))) \<subseteq> set items"
  proof -
    have "set (take 3 (py_sorted_rev snd (priced_values items))) \<subseteq> set (priced_values items)"
      using set_take_subset [of 3 "py_sorted_rev snd (priced_values items)"]
      by (simp add: py_sorted_rev_def set_py_sorted)
    then show ?thesis using priced_values_fst [of items] by auto
  qed
  moreover have "set (take 3 items) \<subseteq> set items" by (rule set_take_subset)
  ultimately show ?thesis using sub p by auto
qed

lemma set_smartphone_pool:
  assumes "smartphone_pool cs persona brand = Inr pool"
  shows "set pool \<subseteq> set cs"
proof -
  have a: "set (take 15 (sorted_asc cs)) \<subseteq> set cs"
    using set_take_subset [of 15 "sorted_asc cs"] set_sorted_asc [of cs] by blast
  have b: "set (take 15 (rev (sorted_asc cs))) \<subseteq> set cs"
    using set_take_subset [of 15 "rev (sorted_asc cs)"] set_sorted_asc [of cs] by auto
  have c: "set bp \<subseteq> set cs" if "brand_pool cs brand = Inr bp" for bp
    using that by (rule set_brand_pool)
  show ?thesis
    using assms a b c set_sorted_asc [of cs]
    by (auto simp: smartphone_pool_def split: sum.splits if_splits)
qed

lemma smartphone_pool_nonempty:
  "cs \<noteq> [] \<Longrightarrow> smartphone_pool cs persona brand = Inr pool \<Longrightarrow> pool \<noteq> []"
  by (auto simp: smartphone_pool_def sorted_asc_Nil_iff split: sum.splits if_splits)

lemma smartphone_pool_cheapest:
  "smartphone_pool cs ''OPPORTUNITE_AchatSmartphone'' brand = Inr (take 15 (sorted_asc cs))"
  by (auto simp: smartphone_pool_def)

lemma brand_pool_no_match:
  "\<forall>c\<in>set cs. \<exists>m. marque_upper c = Inr m \<and> m \<noteq> brand \<Longrightarrow> brand_pool cs brand = Inr []"
  by (simp add: brand_pool_def brand_items_no_match)

text \<open>
  Whenever the selection returns, it returns a candidate, and none only for the empty
  list; it returns whenever every brand cell that is read holds a string.
\<close>

lemma select_smartphone_returns_member:
  assumes "select_smartphone_candidate cs persona brand draw = Inr selected"
  shows "(selected = None \<longleftrightarrow> cs = []) \<and> (cs \<noteq> [] \<longrightarrow> (\<exists>r\<in>set cs. selected = Some r))"
proof (cases "cs = []")
  case True
  then show ?thesis using assms by (simp add: select_smartphone_candidate_def)
next
  case False
  then obtain pool where p: "smartphone_pool cs persona brand = Inr pool"
    and s: "selected = (if pool = [] then None else Some (choice draw pool))"
    using assms by (auto simp: select_smartphone_candidate_def split: sum.splits)
  have ne: "pool \<noteq> []" using False p by (rule smartphone_pool_nonempty)
  then have "choice draw pool \<in> set cs"
    using choice_mem [of pool draw] set_smartphone_pool [OF p] by blast
  then show ?thesis using False ne s by simp
qed

lemma select_smartphone_total:
  assumes "\<forall>c\<in>set cs. \<exists>m. marque_upper c = Inr m"
  shows "\<exists>selected. select_smartphone_candidate cs persona brand draw = Inr selected"
proof -
  obtain items where "brand_items cs brand = Inr items"
    using brand_items_total [OF assms] by blast
  then have "\<exists>pool. smartphone_pool cs persona brand = Inr pool"
    by (simp add: smartphone_pool_def brand_pool_def)
  then show ?thesis
    by (auto simp: select_smartphone_candidate_def)
qed

lemma phone_prices:
  "safe_cast (dict_get phone_a ''prix_dh'') = Some (Fin 10)"
  "safe_cast (dict_get phone_b ''prix_dh'') = None"
  "safe_cast (dict_get phone_short ''prix_dh'') = None"
  by (simp_all add: phone_a_def phone_b_def phone_short_def dict_get_def safe_cast_examples)

lemma phone_brands:
  "marque_upper phone_a = Inr ''SAMSUNG''"
  "marque_upper phone_b = Inr ''OPPO''"
  "marque_upper phone_short = Inl AttributeError"
  by (simp_all add: phone_a_def phone_b_def phone_short_def marque_upper_def get_default_def
      upper_def upper_char_def)

lemma phones_differ: "phone_a \<noteq> phone_b"
proof
  assume "phone_a = phone_b"
  then have "dict_get phone_a ''prix_dh'' = dict_get phone_b ''prix_dh''" by simp
  then show False by (simp add: phone_a_def phone_b_def dict_get_def)
qed

subsection \<open>Offers: resolver, ranking, examples\<close>

lemma query_qdrant_nothing:
  assumes "query_yields_nothing svc collection filters"
  shows "query_qdrant svc collection filters = []"
proof (cases "qdrant svc")
  case None
  then show ?thesis by (simp add: query_qdrant_def)
next
  case (Some scroll)
  show ?thesis
  proof (cases "rest_available svc")
    case False
    then show ?thesis using Some by (simp add: query_qdrant_def)
  next
    case True
    then have "case scroll collection filters 50 of Inl exc \<Rightarrow> True | Inr points \<Rightarrow> points = []"
      using assms Some by (simp add: query_yields_nothing_def)
    then show ?thesis
      using Some True by (simp add: query_qdrant_def py_sorted_def split: sum.splits)
  qed
qed

lemma silent_yields_nothing: "adapter_silent svc \<Longrightarrow> query_yields_nothing svc collection filters"
  by (auto simp: adapter_silent_def query_yields_nothing_def split: option.splits)

lemma query_qdrant_silent: "adapter_silent svc \<Longrightarrow> query_qdrant svc collection filters = []"
  by (simp add: query_qdrant_nothing silent_yields_nothing)

text \<open>The resolver falls back as soon as the two queries of the request give nothing.\<close>

lemma query_offre_falls_back:
  assumes "query_yields_nothing svc (offres_collection svc)
             [(''type'', ''offre''), (''cta'', cta), (''famille'', famille)]"
    and "query_yields_nothing svc (offres_collection svc) [(''type'', ''offre''), (''cta'', cta)]"
  shows "query_offre svc famille cta = local_offres svc famille cta"
  using assms by (simp add: query_offre_def query_qdrant_nothing)

lemma query_offre_silent:
  "adapter_silent svc \<Longrightarrow> query_offre svc famille cta = local_offres svc famille cta"
  by (simp add: query_offre_def query_qdrant_silent)

lemma query_smartphone_silent:
  "adapter_silent svc \<Longrightarrow> query_smartphone svc brand = local_smartphones svc brand"
  by (simp add: query_smartphone_def query_qdrant_silent)

lemma price_or_0_absent: "safe_cast (dict_get r ''prix_dh'') = None \<Longrightarrow> price_or_0 r = Fin 0"
  by (simp add: price_or_0_def)

text \<open>
  In a list sorted by the key \<^verbatim>\<open>price or 0\<close>, no record with a positive price stands
  before a record without price.
\<close>

lemma absent_before_positive:
  assumes "sorted_wrt (\<lambda>a b. py_le (price_or_0 a) (price_or_0 b)) xs"
  shows "sorted_wrt (\<lambda>a b. safe_cast (dict_get b ''prix_dh'') = None \<longrightarrow>
                        (\<forall>p. safe_cast (dict_get a ''prix_dh'') = Some (Fin p) \<longrightarrow> p \<le> 0)) xs"
proof (rule sorted_wrt_mono_rel [OF _ assms])
  fix a b
  assume le: "py_le (price_or_0 a) (price_or_0 b)"
  show "safe_cast (dict_get b ''prix_dh'') = None \<longrightarrow>
      (\<forall>p. safe_cast (dict_get a ''prix_dh'') = Some (Fin p) \<longrightarrow> p \<le> 0)"
  proof (intro impI allI)
    fix p
    assume b: "safe_cast (dict_get b ''prix_dh'') = None"
      and a: "safe_cast (dict_get a ''prix_dh'') = Some (Fin p)"
    have "price_or_0 b = Fin 0" using b by (rule price_or_0_absent)
    moreover have "price_or_0 a = Fin p" using a by (simp add: price_or_0_def truthy_def)
    ultimately show "p \<le> 0" using le by (simp add: py_le_Fin)
  qed
qed

lemma finite_prices_keys:
  assumes "finite_prices rows" and "c \<in> set rows"
  shows "price_or_0 c \<noteq> NaN" and "price_or_inf c \<noteq> NaN"
    and "(safe_cast (dict_get c ''prix_dh'') = None \<and> price_or_inf c = PInf)
         \<or> (\<exists>q. safe_cast (dict_get c ''prix_dh'') = Some (Fin q) \<and> price_or_inf c = Fin q)"
proof -
  have "case safe_cast (dict_get c ''prix_dh'') of None \<Rightarrow> True | Some x \<Rightarrow> is_finite x"
    using assms by (simp add: finite_prices_def list_all_iff)
  then have *: "safe_cast (dict_get c ''prix_dh'') = None \<or> (\<exists>q. safe_cast (dict_get c ''prix_dh'') = Some (Fin q))"
    by (cases "safe_cast (dict_get c ''prix_dh'')") (auto elim: is_finite.elims)
  then show "price_or_0 c \<noteq> NaN" by (auto simp: price_or_0_def split: if_splits)
  from * show "price_or_inf c \<noteq> NaN" by (auto simp: price_or_inf_def)
  from * show "(safe_cast (dict_get c ''prix_dh'') = None \<and> price_or_inf c = PInf)
      \<or> (\<exists>q. safe_cast (dict_get c ''prix_dh'') = Some (Fin q) \<and> price_or_inf c = Fin q)"
    by (auto simp: price_or_inf_def)
qed

lemma offer_prices:
  "safe_cast (dict_get offer_500 ''prix_dh'') = Some (Fin 50)"
  "safe_cast (dict_get offer_2000 ''prix_dh'') = Some (Fin 10)"
  "safe_cast (dict_get offer_1000 ''prix_dh'') = Some (Fin 30)"
  "safe_cast (dict_get offer_noprice ''prix_dh'') = None"
  by (simp_all add: offer_500_def offer_2000_def offer_1000_def offer_noprice_def dict_get_def
      safe_cast_examples)

lemma offer_price_keys:
  "price_or_0 offer_500 = Fin 50" "price_or_0 offer_2000 = Fin 10"
  "price_or_0 offer_1000 = Fin 30" "price_or_0 offer_noprice = Fin 0"
  "price_or_inf offer_500 = Fin 50" "price_or_inf offer_2000 = Fin 10"
  "price_or_inf offer_1000 = Fin 30" "price_or_inf offer_noprice = PInf"
  by (simp_all add: price_or_0_def price_or_inf_def offer_prices truthy_def)

lemma offer_volumes:
  "volume_mb offer_500 = Fin 500" "volume_mb offer_2000 = Fin 2000"
  "volume_mb offer_1000 = Fin 1000"
  by (simp_all add: offer_500_def offer_2000_def offer_1000_def volume_mb_def nonempty_def
      dict_get_def py_float_eval)

lemma offer_keys:
  "dict_get offer_500 ''cta'' = Some ''*3''" "dict_get offer_2000 ''cta'' = Some ''*3''"
  "dict_get offer_1000 ''cta'' = Some ''*3''" "dict_get offer_noprice ''cta'' = Some ''*3''"
  "dict_get offer_500 ''famille'' = Some ''USAGE_Internet''" "dict_get offer_2000 ''famille'' = Some ''USAGE_Internet''"
  "dict_get offer_1000 ''famille'' = Some ''USAGE_Internet''"
  "dict_get offer_noprice ''famille'' = Some ''USAGE_Internet''"
  by (simp_all add: offer_500_def offer_2000_def offer_1000_def offer_noprice_def dict_get_def)

lemma silent_examples: "adapter_silent svc_noprice" "adapter_silent svc_empty" "adapter_silent svc_promo"
  by (simp_all add: adapter_silent_def svc_noprice_def svc_empty_def svc_promo_def
      failing_scroll_def)

text \<open>
  The backend of \<open>svc_three\<close> holds a smartphone, so it is not silent; its collection
  of offers gives nothing.
\<close>

lemma svc_three_offers_nothing:
  "query_yields_nothing svc_three (offres_collection svc_three) filters"
  "query_qdrant svc_three ''smartphones'' filters = [phone_a]"
  "\<not> adapter_silent svc_three"
  by (simp_all add: query_yields_nothing_def adapter_silent_def query_qdrant_def svc_three_def
      phones_only_scroll_def payload_of_def py_sorted_def)

lemma promo_offers:
  "safe_cast (dict_get offer_100 ''prix_dh'') = Some (Fin 100)"
  "safe_cast (dict_get offer_1 ''prix_dh'') = Some (Fin 1)"
  "dict_get offer_100 ''cta'' = Some ''*7''" "dict_get offer_1 ''cta'' = Some ''*8''"
  "dict_get offer_7333 ''cta'' = Some ''*9''"
  by (simp_all add: offer_100_def offer_1_def offer_7333_def dict_get_def safe_cast_examples)

lemma offer_7333_price:
  "safe_cast (dict_get offer_7333 ''prix_dh'') = Some (Fin (8256599316845909 / 2 ^ 50))"
  by (simp add: offer_7333_def dict_get_def safe_cast_def py_float_7333)

lemma put_other: "k \<noteq> k' \<Longrightarrow> put k v d k' = d k'"
  by (simp add: put_def split: option.splits)

lemma put_same: "put k v d k = (case v of None \<Rightarrow> d k | Some x \<Rightarrow> Some x)"
  by (simp add: put_def split: option.splits)

lemma fill_offer_Inr:
  "fill_offer chosen name0 = Inr (offer, price) \<Longrightarrow>
     \<exists>volume minutes sms validite.
       fmt_volume (dict_get chosen ''volume'') = Inr volume
       \<and> fmt_minutes (dict_get chosen ''minutes'') = Inr minutes
       \<and> int_of_cell_opt (dict_get chosen ''sms'') = Inr sms
       \<and> int_of_cell_opt (dict_get chosen ''validite_jours'') = Inr validite
       \<and> offer = filled_context chosen name0 volume minutes sms validite
       \<and> price = safe_cast (dict_get chosen ''prix_dh'')"
  by (auto simp: fill_offer_def split: sum.splits)

lemma offer_half_price: "safe_cast (dict_get offer_half ''prix_dh'') = Some (Fin (1 / 2))"
  by (simp add: offer_half_def dict_get_def safe_cast_def py_float_eval)

text \<open>An offer that has none of the formatted cells is copied without conversion.\<close>

lemma fill_offer_plain:
  assumes "dict_get r ''volume'' = None" and "dict_get r ''minutes'' = None"
    and "dict_get r ''sms'' = None" and "dict_get r ''validite_jours'' = None"
  shows "fill_offer r n = Inr (filled_context r n None None None None,
                               safe_cast (dict_get r ''prix_dh''))"
  using assms by (simp add: fill_offer_def fmt_volume_def fmt_minutes_def int_of_cell_opt_def
      nonempty_def)

lemma promo_cells:
  "dict_get offer_100 ''volume'' = None" "dict_get offer_100 ''minutes'' = None"
  "dict_get offer_100 ''sms'' = None" "dict_get offer_100 ''validite_jours'' = None"
  "dict_get offer_1 ''volume'' = None" "dict_get offer_1 ''minutes'' = None"
  "dict_get offer_1 ''sms'' = None" "dict_get offer_1 ''validite_jours'' = None"
  "dict_get offer_half ''volume'' = None" "dict_get offer_half ''minutes'' = None"
  "dict_get offer_half ''sms'' = None" "dict_get offer_half ''validite_jours'' = None"
  "dict_get offer_7333 ''volume'' = None" "dict_get offer_7333 ''minutes'' = None"
  "dict_get offer_7333 ''sms'' = None" "dict_get offer_7333 ''validite_jours'' = None"
  "dict_get offer_noprice ''volume'' = None" "dict_get offer_noprice ''minutes'' = None"
  "dict_get offer_noprice ''sms'' = None" "dict_get offer_noprice ''validite_jours'' = None"
  by (simp_all add: offer_100_def offer_1_def offer_half_def offer_7333_def offer_noprice_def
      dict_get_def)

lemma promo_keys:
  "dict_get offer_100 ''cta'' = Some ''*7''" "dict_get offer_1 ''cta'' = Some ''*8''"
  "dict_get offer_half ''cta'' = Some ''*6''" "dict_get offer_7333 ''cta'' = Some ''*9''"
  "dict_get offer_noprice ''cta'' = Some ''*3''"
  "dict_get offer_100 ''famille'' = None" "dict_get offer_1 ''famille'' = None"
  "dict_get offer_half ''famille'' = None" "dict_get offer_7333 ''famille'' = None"
  "dict_get offer_noprice ''famille'' = Some ''USAGE_Internet''"
  by (simp_all add: offer_100_def offer_1_def offer_half_def offer_7333_def offer_noprice_def
      dict_get_def)

text \<open>The offer chosen in \<open>svc_promo\<close> under each call-to-action.\<close>

lemma promo_candidates:
  "local_offres svc_promo ''USAGE_Voix'' ''*7'' = [offer_100]"
  "local_offres svc_promo ''USAGE_Voix'' ''*8'' = [offer_1]"
  "local_offres svc_promo ''USAGE_Voix'' ''*6'' = [offer_half]"
  "local_offres svc_promo ''USAGE_Voix'' ''*9'' = [offer_7333]"
  "local_offres svc_promo ''USAGE_Voix'' ''*3'' = [offer_noprice]"
  by (simp_all add: local_offres_def svc_promo_def promo_keys py_sorted_def)

lemma promo_selection:
  "select_offre (rank_offres (query_offre svc_promo ''USAGE_Voix'' ''*7'') ''PROFIL_Econome''
     ''USAGE_Voix'' ''*7'') ''PROFIL_Econome'' ''USAGE_Voix'' 0 = Some offer_100"
  "select_offre (rank_offres (query_offre svc_promo ''USAGE_Voix'' ''*8'') ''PROFIL_Econome''
     ''USAGE_Voix'' ''*8'') ''PROFIL_Econome'' ''USAGE_Voix'' 0 = Some offer_1"
  "select_offre (rank_offres (query_offre svc_promo ''USAGE_Voix'' ''*6'') ''PROFIL_Econome''
     ''USAGE_Voix'' ''*6'') ''PROFIL_Econome'' ''USAGE_Voix'' 0 = Some offer_half"
  "select_offre (rank_offres (query_offre svc_promo ''USAGE_Voix'' ''*9'') ''PROFIL_Econome''
     ''USAGE_Voix'' ''*9'') ''PROFIL_Econome'' ''USAGE_Voix'' 0 = Some offer_7333"
  "select_offre (rank_offres (query_offre svc_promo ''USAGE_Voix'' ''*3'') ''PROFIL_Econome''
     ''USAGE_Voix'' ''*3'') ''PROFIL_Econome'' ''USAGE_Voix'' 0 = Some offer_noprice"
  by (simp_all add: query_offre_silent [OF silent_examples(3)] promo_candidates rank_offres_def
      py_sorted_def select_offre_def)

lemma promo_phone:
  "query_smartphone svc_promo (norm_brand ''Samsung'') = Inr [phone_a]"
  "select_smartphone_candidate [phone_a] ''OPPORTUNITE_AchatSmartphone'' (norm_brand ''Samsung'') 0
     = Inr (Some phone_a)"
proof -
  have n: "norm_brand ''Samsung'' = ''SAMSUNG''"
    by (simp add: norm_brand_def brand_lookup_def upper_def upper_char_def)
  have l: "local_smartphones svc_promo ''SAMSUNG'' = Inr [phone_a]"
    by (simp add: local_smartphones_def svc_promo_def phone_brands py_sorted_def)
  show "query_smartphone svc_promo (norm_brand ''Samsung'') = Inr [phone_a]"
    by (simp add: n query_smartphone_silent [OF silent_examples(3)] l)
  show "select_smartphone_candidate [phone_a] ''OPPORTUNITE_AchatSmartphone''
      (norm_brand ''Samsung'') 0 = Inr (Some phone_a)"
    by (simp add: n select_smartphone_candidate_def smartphone_pool_def sorted_asc_def
        phone_prices py_sorted_def choice_def)
qed

subsection \<open>The promotional price in the payload\<close>

lemma payload_promo:
  assumes "py_scale (Fin p) (3 / 4) = Fin x"
  shows "\<exists>pl. base_llm_payload today persona famille cta offer link (Some (Fin p)) = Inr pl
           \<and> p_promo_context pl = Some [''prix_promo_dh'' \<mapsto> JInt (max (round_half_even x) 1)]"
proof -
  have "max (round_half_even x) 1 \<noteq> 0" by simp
  then show ?thesis using assms by (simp add: base_llm_payload_def pick_discount_def)
qed

lemma payload_no_promo:
  "\<exists>pl. base_llm_payload today persona famille cta offer link None = Inr pl
     \<and> p_promo_context pl = None"
  by (simp add: base_llm_payload_def pick_discount_def)

lemma compose_offre_chosen:
  assumes "select_offre (rank_offres (query_offre svc famille cta) persona famille cta)
             persona famille draw = Some chosen"
    and "fill_offer chosen (''Pass '' @ cta) = Inr (offer, price)"
  shows "compose_offre svc today persona famille cta draw
         = base_llm_payload today persona famille cta offer
             (details_or offer ''https://bit.ly/Recharge_IAM'')
             (safe_cast (dict_get chosen ''prix_dh''))"
proof -
  have "price = safe_cast (dict_get chosen ''prix_dh'')"
    using fill_offer_Inr [OF assms(2)] by blast
  then show ?thesis using assms by (simp add: compose_offre_def Let_def)
qed

lemma compose_smartphone_chosen:
  assumes "query_smartphone svc (norm_brand hset_brand) = Inr cands"
    and "select_smartphone_candidate cands persona (norm_brand hset_brand) draw = Inr (Some phone)"
  shows "compose_smartphone svc today persona famille hset_brand draw
         = smartphone_payload today persona famille (Some phone)"
  using assms by (simp add: compose_smartphone_def Let_def)

lemma smartphone_payload_promo:
  assumes "safe_cast (dict_get phone ''prix_dh'') = Some (Fin p)"
    and "py_scale (Fin p) (3 / 4) = Fin x"
  shows "\<exists>pl. smartphone_payload today persona famille (Some phone) = Inr pl
           \<and> p_promo_context pl = Some [''prix_promo_dh'' \<mapsto> JInt (max (round_half_even x) 1)]"
proof -
  have "phone \<noteq> Map.empty"
    using assms(1) by (auto simp: dict_get_def safe_cast_def)
  then show ?thesis
    using assms(1) payload_promo [OF assms(2)]
    by (simp add: smartphone_payload_def Let_def)
qed

lemma smartphone_payload_no_promo:
  assumes "safe_cast (dict_get phone ''prix_dh'') = None"
  shows "\<exists>pl. smartphone_payload today persona famille (Some phone) = Inr pl
           \<and> p_promo_context pl = None"
  using assms payload_no_promo by (simp add: smartphone_payload_def Let_def)

text \<open>
  The product \<^verbatim>\<open>price * 0.75\<close> of a parsed price, with its distance to the exact three
  quarters and the distance of the rounded integer to the product.
\<close>

lemma three_quarters_rounding:
  assumes "safe_cast v = Some (Fin p)"
  shows "\<exists>x. py_scale (Fin p) (3 / 4) = Fin x
           \<and> \<bar>x - p * (3 / 4)\<bar> \<le> max (\<bar>p * (3 / 4)\<bar> / 2 ^ 53) (1 / 2 ^ 1075)
           \<and> \<bar>of_int (round_half_even x) - x\<bar> \<le> 1 / 2"
proof -
  obtain x where x: "py_scale (Fin p) (3 / 4) = Fin x"
    using three_quarters_finite [OF assms] by blast
  then have "round64 (p * (3 / 4)) = Fin x" by simp
  then have "\<bar>x - p * (3 / 4)\<bar> \<le> max (\<bar>p * (3 / 4)\<bar> / 2 ^ 53) (1 / 2 ^ 1075)"
    by (rule round64_error)
  then show ?thesis using x round_half_even_nearest [of x] by blast
qed

section \<open>The claims\<close>

subsection \<open>C9: the parse and format helpers on malformed input\<close>

text \<open>
  On ordinary malformed strings the helpers return no value, and the documented
  outputs hold; \<open>safe_cast\<close> returns an optional float and cannot raise.
\<close>

lemma fmt_examples:
  "fmt_volume (Some ''1024'') = Inr (Some ''1 Go'')"
  "fmt_volume (Some ''1536'') = Inr (Some ''1.5 Go'')"
  "fmt_volume (Some ''512'') = Inr (Some ''512 Mo'')"
  "fmt_volume (Some ''2048'') = Inr (Some ''2 Go'')"
  "fmt_minutes (Some ''-1'') = Inr (Some ''illimite'')"
  "fmt_minutes (Some ''60'') = Inr (Some ''60 min'')"
  "fmt_minutes (Some '''') = Inr None"
  "fmt_minutes (Some ''abc'') = Inr None"
  "fmt_volume (Some ''abc'') = Inr None"
  "fmt_volume None = Inr None"
  "safe_cast (Some ''abc'') = None"
  by (simp_all add: safe_cast_def py_float_eval fmt_eval)

text \<open>
  C9 says that the safe price cast, the volume formatting and the minutes formatting
  never raise, whatever the input string. \<^verbatim>\<open>float()\<close> also accepts \<^verbatim>\<open>"inf"\<close> and
  \<^verbatim>\<open>"nan"\<close>, and on these strings \<^verbatim>\<open>_fmt_minutes\<close> and \<^verbatim>\<open>_fmt_volume\<close> raise:
  \<^verbatim>\<open>int(float("inf"))\<close> is an OverflowError, which the handler of \<^verbatim>\<open>_fmt_minutes\<close>
  does not catch; in \<^verbatim>\<open>_fmt_volume\<close> the calls \<^verbatim>\<open>round(gb)\<close> and \<^verbatim>\<open>int(mb)\<close> stand
  after the \<^verbatim>\<open>try\<close>.
\<close>

theorem fmt_helpers_raise:
  "fmt_minutes (Some ''inf'') = Inl OverflowError
   \<and> fmt_volume (Some ''inf'') = Inl OverflowError
   \<and> fmt_volume (Some ''nan'') = Inl ValueError"
  by (simp add: py_float_eval fmt_eval)

subsection \<open>C7: the promotional price\<close>

text \<open>
  C7 says that the promotional price is 75% of the base price rounded to the nearest
  integer. The product \<^verbatim>\<open>price * 0.75\<close> is a binary64 product, rounded before
  \<^verbatim>\<open>round\<close> sees it. The cell \<^verbatim>\<open>7.333333333333333\<close> reads as a float whose three
  quarters lie below 5.5, nearer to 5 than to 6; the product rounds to 5.5 exactly and
  \<^verbatim>\<open>round\<close> takes the tie to the even 6, which \<^verbatim>\<open>compose_offre\<close> emits.
\<close>

theorem promo_price_counterexample:
  "select_offre (rank_offres (query_offre svc_promo ''USAGE_Voix'' ''*9'') ''PROFIL_Econome''
     ''USAGE_Voix'' ''*9'') ''PROFIL_Econome'' ''USAGE_Voix'' 0 = Some offer_7333
   \<and> dict_get offer_7333 ''prix_dh'' = Some ''7.333333333333333''
   \<and> safe_cast (dict_get offer_7333 ''prix_dh'') = Some (Fin (8256599316845909 / 2 ^ 50))
   \<and> (\<exists>pl. compose_offre svc_promo (2026, 11) ''PROFIL_Econome'' ''USAGE_Voix'' ''*9'' 0 = Inr pl
         \<and> p_promo_context pl = Some [''prix_promo_dh'' \<mapsto> JInt 6])
   \<and> \<bar>5 - 8256599316845909 / 2 ^ 50 * (3 / 4)\<bar> < (1 / 2 :: rat)
   \<and> (1 / 2 :: rat) < \<bar>6 - 8256599316845909 / 2 ^ 50 * (3 / 4)\<bar>"
proof -
  have cell: "dict_get offer_7333 ''prix_dh'' = Some ''7.333333333333333''"
    by (simp add: offer_7333_def dict_get_def)
  have f: "fill_offer offer_7333 (''Pass '' @ ''*9'')
      = Inr (filled_context offer_7333 (''Pass '' @ ''*9'') None None None None,
             safe_cast (dict_get offer_7333 ''prix_dh''))"
    by (rule fill_offer_plain) (rule promo_cells)+
  have r: "round_half_even (11 / 2) = 6"
    by (simp add: round_half_even_def Let_def floor_rat_numeral_div)
  obtain pl where pl: "base_llm_payload (2026, 11) ''PROFIL_Econome'' ''USAGE_Voix'' ''*9''
        (filled_context offer_7333 (''Pass '' @ ''*9'') None None None None)
        (details_or (filled_context offer_7333 (''Pass '' @ ''*9'') None None None None)
           ''https://bit.ly/Recharge_IAM'')
        (Some (Fin (8256599316845909 / 2 ^ 50))) = Inr pl"
    and promo: "p_promo_context pl
        = Some [''prix_promo_dh'' \<mapsto> JInt (max (round_half_even (11 / 2)) 1)]"
    using payload_promo [OF three_quarters_7333] by blast
  have "compose_offre svc_promo (2026, 11) ''PROFIL_Econome'' ''USAGE_Voix'' ''*9'' 0 = Inr pl"
    using compose_offre_chosen [OF promo_selection(4) f] pl by (simp add: offer_7333_price)
  moreover have "p_promo_context pl = Some [''prix_promo_dh'' \<mapsto> JInt 6]"
    using promo by (simp add: r)
  ultimately have c: "\<exists>pl. compose_offre svc_promo (2026, 11) ''PROFIL_Econome'' ''USAGE_Voix''
        ''*9'' 0 = Inr pl \<and> p_promo_context pl = Some [''prix_promo_dh'' \<mapsto> JInt 6]"
    by blast
  have d5: "\<bar>5 - 8256599316845909 / 2 ^ 50 * (3 / 4)\<bar> < (1 / 2 :: rat)" by simp
  have d6: "(1 / 2 :: rat) < \<bar>6 - 8256599316845909 / 2 ^ 50 * (3 / 4)\<bar>" by simp
  show ?thesis
    by (intro conjI promo_selection(4) cell offer_7333_price c d5 d6)
qed

text \<open>
  C7 as amended: for a chosen candidate whose base price parses to the finite number
  \<open>p\<close>, \<^verbatim>\<open>compose_offre\<close> and \<^verbatim>\<open>compose_smartphone\<close> return a payload that carries the
  promotional price \<open>max n 1\<close>, where \<open>n\<close> is the binary64 product \<open>x\<close> of \<open>p\<close> and 0.75
  rounded to the nearest integer, ties to even. The product \<open>x\<close> is finite and differs
  from the exact 75% of \<open>p\<close> by at most \<open>2^-53\<close> of its magnitude (\<open>2^-1075\<close> for a
  subnormal product), and \<open>n\<close> is at most one half away from \<open>x\<close>. When the base price of
  the chosen candidate is absent, the payload carries no promotional price. For an offer
  the statement supposes that the other cells of the chosen record are converted
  without error.
\<close>

theorem promo_price:
  "(select_offre (rank_offres (query_offre svc famille cta) persona famille cta)
      persona famille draw = Some chosen
    \<and> fill_offer chosen (''Pass '' @ cta) = Inr (offer, price) \<longrightarrow>
      (\<forall>p. safe_cast (dict_get chosen ''prix_dh'') = Some (Fin p) \<longrightarrow>
         (\<exists>pl x. compose_offre svc today persona famille cta draw = Inr pl
            \<and> py_scale (Fin p) (3 / 4) = Fin x
            \<and> \<bar>x - p * (3 / 4)\<bar> \<le> max (\<bar>p * (3 / 4)\<bar> / 2 ^ 53) (1 / 2 ^ 1075)
            \<and> \<bar>of_int (round_half_even x) - x\<bar> \<le> 1 / 2
            \<and> p_promo_context pl
                = Some [''prix_promo_dh'' \<mapsto> JInt (max (round_half_even x) 1)]))
      \<and> (safe_cast (dict_get chosen ''prix_dh'') = None \<longrightarrow>
         (\<exists>pl. compose_offre svc today persona famille cta draw = Inr pl
            \<and> p_promo_context pl = None)))
   \<and> (query_smartphone svc (norm_brand hset_brand) = Inr cands
    \<and> select_smartphone_candidate cands persona2 (norm_brand hset_brand) draw2
        = Inr (Some phone) \<longrightarrow>
      (\<forall>p. safe_cast (dict_get phone ''prix_dh'') = Some (Fin p) \<longrightarrow>
         (\<exists>pl x. compose_smartphone svc today persona2 famille2 hset_brand draw2 = Inr pl
            \<and> py_scale (Fin p) (3 / 4) = Fin x
            \<and> \<bar>x - p * (3 / 4)\<bar> \<le> max (\<bar>p * (3 / 4)\<bar> / 2 ^ 53) (1 / 2 ^ 1075)
            \<and> \<bar>of_int (round_half_even x) - x\<bar> \<le> 1 / 2
            \<and> p_promo_context pl
                = Some [''prix_promo_dh'' \<mapsto> JInt (max (round_half_even x) 1)]))
      \<and> (safe_cast (dict_get phone ''prix_dh'') = None \<longrightarrow>
         (\<exists>pl. compose_smartphone svc today persona2 famille2 hset_brand draw2 = Inr pl
            \<and> p_promo_context pl = None)))"
proof (intro conjI impI allI)
  fix p
  assume a: "select_offre (rank_offres (query_offre svc famille cta) persona famille cta)
      persona famille draw = Some chosen
    \<and> fill_offer chosen (''Pass '' @ cta) = Inr (offer, price)"
    and p: "safe_cast (dict_get chosen ''prix_dh'') = Some (Fin p)"
  have c: "compose_offre svc today persona famille cta draw
         = base_llm_payload today persona famille cta offer
             (details_or offer ''https://bit.ly/Recharge_IAM'') (Some (Fin p))"
    using compose_offre_chosen [of svc famille cta persona draw chosen offer price today] a p
    by simp
  obtain x where x: "py_scale (Fin p) (3 / 4) = Fin x"
    and e: "\<bar>x - p * (3 / 4)\<bar> \<le> max (\<bar>p * (3 / 4)\<bar> / 2 ^ 53) (1 / 2 ^ 1075)"
    and h: "\<bar>of_int (round_half_even x) - x\<bar> \<le> 1 / 2"
    using three_quarters_rounding [OF p] by blast
  obtain pl where "compose_offre svc today persona famille cta draw = Inr pl"
    and "p_promo_context pl = Some [''prix_promo_dh'' \<mapsto> JInt (max (round_half_even x) 1)]"
    using payload_promo [OF x] c by metis
  then show "\<exists>pl x. compose_offre svc today persona famille cta draw = Inr pl
            \<and> py_scale (Fin p) (3 / 4) = Fin x
            \<and> \<bar>x - p * (3 / 4)\<bar> \<le> max (\<bar>p * (3 / 4)\<bar> / 2 ^ 53) (1 / 2 ^ 1075)
            \<and> \<bar>of_int (round_half_even x) - x\<bar> \<le> 1 / 2
            \<and> p_promo_context pl
                = Some [''prix_promo_dh'' \<mapsto> JInt (max (round_half_even x) 1)]"
    using x e h by blast
next
  assume a: "select_offre (rank_offres (query_offre svc famille cta) persona famille cta)
      persona famille draw = Some chosen
    \<and> fill_offer chosen (''Pass '' @ cta) = Inr (offer, price)"
    and p: "safe_cast (dict_get chosen ''prix_dh'') = None"
  have "compose_offre svc today persona famille cta draw
         = base_llm_payload today persona famille cta offer
             (details_or offer ''https://bit.ly/Recharge_IAM'') None"
    using compose_offre_chosen [of svc famille cta persona draw chosen offer price today] a p
    by simp
  then show "\<exists>pl. compose_offre svc today persona famille cta draw = Inr pl
            \<and> p_promo_context pl = None"
    using payload_no_promo by metis
next
  fix p
  assume a: "query_smartphone svc (norm_brand hset_brand) = Inr cands
    \<and> select_smartphone_candidate cands persona2 (norm_brand hset_brand) draw2
        = Inr (Some phone)"
    and p: "safe_cast (dict_get phone ''prix_dh'') = Some (Fin p)"
  have c: "compose_smartphone svc today persona2 famille2 hset_brand draw2
         = smartphone_payload today persona2 famille2 (Some phone)"
    using compose_smartphone_chosen [of svc hset_brand cands persona2 draw2 phone] a by simp
  obtain x where x: "py_scale (Fin p) (3 / 4) = Fin x"
    and e: "\<bar>x - p * (3 / 4)\<bar> \<le> max (\<bar>p * (3 / 4)\<bar> / 2 ^ 53) (1 / 2 ^ 1075)"
    and h: "\<bar>of_int (round_half_even x) - x\<bar> \<le> 1 / 2"
    using three_quarters_rounding [OF p] by blast
  obtain pl where "compose_smartphone svc today persona2 famille2 hset_brand draw2 = Inr pl"
    and "p_promo_context pl = Some [''prix_promo_dh'' \<mapsto> JInt (max (round_half_even x) 1)]"
    using smartphone_payload_promo [OF p x] c by metis
  then show "\<exists>pl x. compose_smartphone svc today persona2 famille2 hset_brand draw2 = Inr pl
            \<and> py_scale (Fin p) (3 / 4) = Fin x
            \<and> \<bar>x - p * (3 / 4)\<bar> \<le> max (\<bar>p * (3 / 4)\<bar> / 2 ^ 53) (1 / 2 ^ 1075)
            \<and> \<bar>of_int (round_half_even x) - x\<bar> \<le> 1 / 2
            \<and> p_promo_context pl
                = Some [''prix_promo_dh'' \<mapsto> JInt (max (round_half_even x) 1)]"
    using x e h by blast
next
  assume a: "query_smartphone svc (norm_brand hset_brand) = Inr cands
    \<and> select_smartphone_candidate cands persona2 (norm_brand hset_brand) draw2
        = Inr (Some phone)"
    and p: "safe_cast (dict_get phone ''prix_dh'') = None"
  have "compose_smartphone svc today persona2 famille2 hset_brand draw2
         = smartphone_payload today persona2 famille2 (Some phone)"
    using compose_smartphone_chosen [of svc hset_brand cands persona2 draw2 phone] a by simp
  then show "\<exists>pl. compose_smartphone svc today persona2 famille2 hset_brand draw2 = Inr pl
            \<and> p_promo_context pl = None"
    using smartphone_payload_no_promo [OF p] by metis
qed

theorem promo_price_witness:
  "select_offre (rank_offres (query_offre svc_promo ''USAGE_Voix'' ''*7'') ''PROFIL_Econome''
     ''USAGE_Voix'' ''*7'') ''PROFIL_Econome'' ''USAGE_Voix'' 0 = Some offer_100
   \<and> safe_cast (dict_get offer_100 ''prix_dh'') = Some (Fin 100)
   \<and> (\<exists>pl. compose_offre svc_promo (2026, 11) ''PROFIL_Econome'' ''USAGE_Voix'' ''*7'' 0 = Inr pl
         \<and> p_promo_context pl = Some [''prix_promo_dh'' \<mapsto> JInt 75])
   \<and> safe_cast (dict_get offer_1 ''prix_dh'') = Some (Fin 1)
   \<and> (\<exists>pl. compose_offre svc_promo (2026, 11) ''PROFIL_Econome'' ''USAGE_Voix'' ''*8'' 0 = Inr pl
         \<and> p_promo_context pl = Some [''prix_promo_dh'' \<mapsto> JInt 1])
   \<and> safe_cast (dict_get offer_half ''prix_dh'') = Some (Fin (1 / 2))
   \<and> (\<exists>pl. compose_offre svc_promo (2026, 11) ''PROFIL_Econome'' ''USAGE_Voix'' ''*6'' 0 = Inr pl
         \<and> p_promo_context pl = Some [''prix_promo_dh'' \<mapsto> JInt 1])
   \<and> safe_cast (dict_get offer_noprice ''prix_dh'') = None
   \<and> (\<exists>pl. compose_offre svc_promo (2026, 11) ''PROFIL_Econome'' ''USAGE_Voix'' ''*3'' 0 = Inr pl
         \<and> p_promo_context pl = None)
   \<and> select_smartphone_candidate [phone_a] ''OPPORTUNITE_AchatSmartphone'' (norm_brand ''Samsung'') 0
       = Inr (Some phone_a)
   \<and> safe_cast (dict_get phone_a ''prix_dh'') = Some (Fin 10)
   \<and> (\<exists>pl. compose_smartphone svc_promo (2026, 11) ''OPPORTUNITE_AchatSmartphone''
              ''OPPORTUNITE_Achat_Equipement'' ''Samsung'' 0 = Inr pl
         \<and> p_promo_context pl = Some [''prix_promo_dh'' \<mapsto> JInt 8])"
proof -
  have f: "fill_offer offer_100 (''Pass '' @ ''*7'')
      = Inr (filled_context offer_100 (''Pass '' @ ''*7'') None None None None,
             safe_cast (dict_get offer_100 ''prix_dh''))"
    "fill_offer offer_1 (''Pass '' @ ''*8'')
      = Inr (filled_context offer_1 (''Pass '' @ ''*8'') None None None None,
             safe_cast (dict_get offer_1 ''prix_dh''))"
    "fill_offer offer_half (''Pass '' @ ''*6'')
      = Inr (filled_context offer_half (''Pass '' @ ''*6'') None None None None,
             safe_cast (dict_get offer_half ''prix_dh''))"
    "fill_offer offer_noprice (''Pass '' @ ''*3'')
      = Inr (filled_context offer_noprice (''Pass '' @ ''*3'') None None None None,
             safe_cast (dict_get offer_noprice ''prix_dh''))"
    by (rule fill_offer_plain; rule promo_cells)+
  have s: "py_scale (Fin 100) (3 / 4) = Fin 75" "py_scale (Fin 1) (3 / 4) = Fin (3 / 4)"
    "py_scale (Fin (1 / 2)) (3 / 4) = Fin (3 / 8)" "py_scale (Fin 10) (3 / 4) = Fin (15 / 2)"
    by (simp_all add: round64_eval)
  have r: "round_half_even 75 = 75" "round_half_even (3 / 4) = 1" "round_half_even (3 / 8) = 0"
    "round_half_even (15 / 2) = 8"
    by (simp_all add: round_half_even_def Let_def floor_rat_numeral_div)
  have p100: "safe_cast (dict_get offer_100 ''prix_dh'') = Some (Fin 100)"
    and p1: "safe_cast (dict_get offer_1 ''prix_dh'') = Some (Fin 1)"
    by (rule promo_offers)+
  have pnone: "safe_cast (dict_get offer_noprice ''prix_dh'') = None" by (rule offer_prices)
  have p10: "safe_cast (dict_get phone_a ''prix_dh'') = Some (Fin 10)" by (rule phone_prices)
  have "\<exists>pl x. compose_offre svc_promo (2026, 11) ''PROFIL_Econome'' ''USAGE_Voix'' ''*7'' 0 = Inr pl
      \<and> py_scale (Fin 100) (3 / 4) = Fin x
      \<and> \<bar>x - 100 * (3 / 4)\<bar> \<le> max (\<bar>100 * (3 / 4)\<bar> / 2 ^ 53) (1 / 2 ^ 1075)
      \<and> \<bar>of_int (round_half_even x) - x\<bar> \<le> 1 / 2
      \<and> p_promo_context pl = Some [''prix_promo_dh'' \<mapsto> JInt (max (round_half_even x) 1)]"
    by (rule promo_price [where today = "(2026, 11)", THEN conjunct1, THEN mp,
          OF conjI [OF promo_selection(1) f(1)], THEN conjunct1, THEN spec, THEN mp, OF p100])
  then obtain pl x where c: "compose_offre svc_promo (2026, 11) ''PROFIL_Econome'' ''USAGE_Voix'' ''*7'' 0
        = Inr pl"
    and xs: "py_scale (Fin 100) (3 / 4) = Fin x"
    and pr: "p_promo_context pl = Some [''prix_promo_dh'' \<mapsto> JInt (max (round_half_even x) 1)]"
    by blast
  have "Fin x = Fin (75)" using xs s(1) by (simp only:)
  then have "x = 75" by simp
  then have "round_half_even x = 75" using r(1) by (simp only:)
  then have "p_promo_context pl = Some [''prix_promo_dh'' \<mapsto> JInt 75]"
    using pr by simp
  then have c100: "\<exists>pl. compose_offre svc_promo (2026, 11) ''PROFIL_Econome'' ''USAGE_Voix'' ''*7'' 0
        = Inr pl \<and> p_promo_context pl = Some [''prix_promo_dh'' \<mapsto> JInt 75]"
    using c by blast
  have "\<exists>pl x. compose_offre svc_promo (2026, 11) ''PROFIL_Econome'' ''USAGE_Voix'' ''*8'' 0 = Inr pl
      \<and> py_scale (Fin 1) (3 / 4) = Fin x
      \<and> \<bar>x - 1 * (3 / 4)\<bar> \<le> max (\<bar>1 * (3 / 4)\<bar> / 2 ^ 53) (1 / 2 ^ 1075)
      \<and> \<bar>of_int (round_half_even x) - x\<bar> \<le> 1 / 2
      \<and> p_promo_context pl = Some [''prix_promo_dh'' \<mapsto> JInt (max (round_half_even x) 1)]"
    by (rule promo_price [where today = "(2026, 11)", THEN conjunct1, THEN mp,
          OF conjI [OF promo_selection(2) f(2)], THEN conjunct1, THEN spec, THEN mp, OF p1])
  then obtain pl x where c: "compose_offre svc_promo (2026, 11) ''PROFIL_Econome'' ''USAGE_Voix'' ''*8'' 0
        = Inr pl"
    and xs: "py_scale (Fin 1) (3 / 4) = Fin x"
    and pr: "p_promo_context pl = Some [''prix_promo_dh'' \<mapsto> JInt (max (round_half_even x) 1)]"
    by blast
  have "Fin x = Fin (3 / 4)" using xs s(2) by (simp only:)
  then have "x = 3 / 4" by simp
  then have "round_half_even x = 1" using r(2) by (simp only:)
  then have "p_promo_context pl = Some [''prix_promo_dh'' \<mapsto> JInt 1]"
    using pr by simp
  then have c1: "\<exists>pl. compose_offre svc_promo (2026, 11) ''PROFIL_Econome'' ''USAGE_Voix'' ''*8'' 0
        = Inr pl \<and> p_promo_context pl = Some [''prix_promo_dh'' \<mapsto> JInt 1]"
    using c by blast
  have "\<exists>pl x. compose_offre svc_promo (2026, 11) ''PROFIL_Econome'' ''USAGE_Voix'' ''*6'' 0 = Inr pl
      \<and> py_scale (Fin (1 / 2)) (3 / 4) = Fin x
      \<and> \<bar>x - 1 / 2 * (3 / 4)\<bar> \<le> max (\<bar>1 / 2 * (3 / 4)\<bar> / 2 ^ 53) (1 / 2 ^ 1075)
      \<and> \<bar>of_int (round_half_even x) - x\<bar> \<le> 1 / 2
      \<and> p_promo_context pl = Some [''prix_promo_dh'' \<mapsto> JInt (max (round_half_even x) 1)]"
    by (rule promo_price [where today = "(2026, 11)", THEN conjunct1, THEN mp,
          OF conjI [OF promo_selection(3) f(3)], THEN conjunct1, THEN spec, THEN mp,
          OF offer_half_price])
  then obtain pl x where c: "compose_offre svc_promo (2026, 11) ''PROFIL_Econome'' ''USAGE_Voix'' ''*6'' 0
        = Inr pl"
    and xs: "py_scale (Fin (1 / 2)) (3 / 4) = Fin x"
    and pr: "p_promo_context pl = Some [''prix_promo_dh'' \<mapsto> JInt (max (round_half_even x) 1)]"
    by blast
  have "Fin x = Fin (3 / 8)" using xs s(3) by (simp only:)
  then have "x = 3 / 8" by simp
  then have "round_half_even x = 0" using r(3) by (simp only:)
  then have "p_promo_context pl = Some [''prix_promo_dh'' \<mapsto> JInt 1]"
    using pr by simp
  then have chalf: "\<exists>pl. compose_offre svc_promo (2026, 11) ''PROFIL_Econome'' ''USAGE_Voix'' ''*6'' 0
        = Inr pl \<and> p_promo_context pl = Some [''prix_promo_dh'' \<mapsto> JInt 1]"
    using c by blast
  have cnone: "\<exists>pl. compose_offre svc_promo (2026, 11) ''PROFIL_Econome'' ''USAGE_Voix'' ''*3'' 0
        = Inr pl \<and> p_promo_context pl = None"
    by (rule promo_price [where today = "(2026, 11)", THEN conjunct1, THEN mp,
          OF conjI [OF promo_selection(5) f(4)], THEN conjunct2, THEN mp, OF pnone])
  have "\<exists>pl x. compose_smartphone svc_promo (2026, 11) ''OPPORTUNITE_AchatSmartphone''
              ''OPPORTUNITE_Achat_Equipement'' ''Samsung'' 0 = Inr pl
      \<and> py_scale (Fin 10) (3 / 4) = Fin x
      \<and> \<bar>x - 10 * (3 / 4)\<bar> \<le> max (\<bar>10 * (3 / 4)\<bar> / 2 ^ 53) (1 / 2 ^ 1075)
      \<and> \<bar>of_int (round_half_even x) - x\<bar> \<le> 1 / 2
      \<and> p_promo_context pl = Some [''prix_promo_dh'' \<mapsto> JInt (max (round_half_even x) 1)]"
    by (rule promo_price [where today = "(2026, 11)"
            and ?famille2.0 = "''OPPORTUNITE_Achat_Equipement''", THEN conjunct2, THEN mp,
          OF conjI [OF promo_phone(1) promo_phone(2)], THEN conjunct1, THEN spec, THEN mp, OF p10])
  then obtain pl x where c: "compose_smartphone svc_promo (2026, 11) ''OPPORTUNITE_AchatSmartphone''
              ''OPPORTUNITE_Achat_Equipement'' ''Samsung'' 0 = Inr pl"
    and xs: "py_scale (Fin 10) (3 / 4) = Fin x"
    and pr: "p_promo_context pl = Some [''prix_promo_dh'' \<mapsto> JInt (max (round_half_even x) 1)]"
    by blast
  have "Fin x = Fin (15 / 2)" using xs s(4) by (simp only:)
  then have "x = 15 / 2" by simp
  then have "round_half_even x = 8" using r(4) by (simp only:)
  then have "p_promo_context pl = Some [''prix_promo_dh'' \<mapsto> JInt 8]"
    using pr by simp
  then have cphone: "\<exists>pl. compose_smartphone svc_promo (2026, 11) ''OPPORTUNITE_AchatSmartphone''
              ''OPPORTUNITE_Achat_Equipement'' ''Samsung'' 0 = Inr pl
        \<and> p_promo_context pl = Some [''prix_promo_dh'' \<mapsto> JInt 8]"
    using c by blast
  show ?thesis
    by (intro conjI promo_selection(1) p100 c100 p1 c1 offer_half_price chalf pnone cnone
        promo_phone(2) p10 cphone)
qed

subsection \<open>C10: smartphone selection on a non-empty list\<close>


subsection \<open>C2: a requested brand without matching record\<close>

text \<open>
  C2 says that for persona \<^verbatim>\<open>OPPORTUNITE_AchatNouveaute\<close> with a non-empty brand that no
  candidate matches, no candidate is returned although the list is non-empty. The code
  replaces the empty brand pool by the full ascending list (\<^verbatim>\<open>if not pool: pool =
  sorted_asc\<close>): with a Samsung and an Oppo phone and the brand \<^verbatim>\<open>APPLE\<close>, the Samsung
  phone is returned.
\<close>

theorem brand_without_match_counterexample:
  "''APPLE'' \<noteq> ''''
   \<and> marque_upper phone_a = Inr ''SAMSUNG''
   \<and> marque_upper phone_b = Inr ''OPPO''
   \<and> select_smartphone_candidate [phone_a, phone_b] ''OPPORTUNITE_AchatNouveaute'' ''APPLE'' 0
       = Inr (Some phone_a)"
  by (simp add: phone_brands phone_prices select_smartphone_candidate_def smartphone_pool_def
      brand_pool_def sorted_asc_def py_sorted_def choice_def)

text \<open>
  C2 as amended: for persona \<^verbatim>\<open>OPPORTUNITE_AchatNouveaute\<close> with a non-empty brand, if
  the brand cell of every candidate holds a string and none of them matches the brand,
  the brand pool is empty and the selection falls back to the full ascending-by-price
  list: it returns a member of that list, which is a candidate, and returns none only
  when the candidate list is empty.
\<close>

theorem brand_without_match_falls_back:
  assumes "brand \<noteq> ''''"
    and "\<forall>c\<in>set cands. \<exists>m. marque_upper c = Inr m \<and> m \<noteq> brand"
  shows "select_smartphone_candidate cands ''OPPORTUNITE_AchatNouveaute'' brand draw
           = Inr (if cands = [] then None else Some (choice draw (sorted_asc cands)))
         \<and> (cands \<noteq> [] \<longrightarrow> choice draw (sorted_asc cands) \<in> set cands)"
proof -
  have pool: "smartphone_pool cands ''OPPORTUNITE_AchatNouveaute'' brand = Inr (sorted_asc cands)"
    using assms by (simp add: smartphone_pool_def brand_pool_no_match)
  have "cands \<noteq> [] \<Longrightarrow> choice draw (sorted_asc cands) \<in> set cands"
    using choice_mem [of "sorted_asc cands" draw] set_sorted_asc [of cands]
    by (auto simp: sorted_asc_Nil_iff)
  then show ?thesis
    by (simp add: select_smartphone_candidate_def pool sorted_asc_Nil_iff)
qed

theorem brand_without_match_falls_back_witness:
  "''APPLE'' \<noteq> ''''
   \<and> marque_upper phone_a = Inr ''SAMSUNG'' \<and> ''SAMSUNG'' \<noteq> ''APPLE''
   \<and> marque_upper phone_b = Inr ''OPPO'' \<and> ''OPPO'' \<noteq> ''APPLE''
   \<and> select_smartphone_candidate [phone_a, phone_b] ''OPPORTUNITE_AchatNouveaute'' ''APPLE'' 3
       = Inr (Some (choice 3 (sorted_asc [phone_a, phone_b])))
   \<and> choice 3 (sorted_asc [phone_a, phone_b]) \<in> set [phone_a, phone_b]"
proof -
  have h: "\<forall>c\<in>set [phone_a, phone_b]. \<exists>m. marque_upper c = Inr m \<and> m \<noteq> ''APPLE''"
    by (simp add: phone_brands)
  have b: "''APPLE'' \<noteq> ''''" by simp
  show ?thesis
    using brand_without_match_falls_back [OF b h, of 3] by (simp add: phone_brands)
qed

subsection \<open>C3: the pool of the 15 cheapest smartphones\<close>

text \<open>
  C3 says that for persona \<^verbatim>\<open>OPPORTUNITE_AchatSmartphone\<close> the pool is the 15 cheapest
  candidates, those without price sorting last (\<open>spec_pool_absent_last\<close>). The code drops the candidates without price as soon as one candidate has a price
  (\<^verbatim>\<open>priced_values\<close> keeps the pairs whose price is not \<^verbatim>\<open>None\<close>): of a phone priced 10
  and a phone without price, only the first is in the pool.
\<close>

theorem cheapest_pool_counterexample:
  "smartphone_pool [phone_a, phone_b] ''OPPORTUNITE_AchatSmartphone'' '''' = Inr [phone_a]
   \<and> spec_pool_absent_last [phone_a, phone_b] = [phone_a, phone_b]
   \<and> smartphone_pool [phone_a, phone_b] ''OPPORTUNITE_AchatSmartphone'' ''''
       \<noteq> Inr (spec_pool_absent_last [phone_a, phone_b])"
  by (simp add: phone_prices smartphone_pool_def sorted_asc_def py_sorted_def
      spec_pool_absent_last_def price_or_inf_def)

text \<open>
  C3 as amended: for persona \<^verbatim>\<open>OPPORTUNITE_AchatSmartphone\<close> and every non-empty
  candidate list (no price being NaN), the pool is the first 15 entries of the list
  \<open>sorted_asc\<close>, which holds exactly the candidates that have a parseable price, in
  ascending order of price; candidates without price are left out, not sorted last, and
  only when no candidate has a price is \<open>sorted_asc\<close> the candidate list in its incoming
  order. Every call returns a member of the pool.
\<close>

theorem cheapest_pool:
  assumes "cands \<noteq> []"
    and "\<forall>c\<in>set cands. safe_cast (dict_get c ''prix_dh'') \<noteq> Some NaN"
  shows "smartphone_pool cands ''OPPORTUNITE_AchatSmartphone'' brand
           = Inr (take 15 (sorted_asc cands))
         \<and> sorted_wrt (\<lambda>a b. py_le (price_or_inf a) (price_or_inf b)) (sorted_asc cands)
         \<and> ((\<exists>c\<in>set cands. safe_cast (dict_get c ''prix_dh'') \<noteq> None) \<longrightarrow>
               mset (sorted_asc cands)
                 = mset (filter (\<lambda>c. safe_cast (dict_get c ''prix_dh'') \<noteq> None) cands))
         \<and> ((\<forall>c\<in>set cands. safe_cast (dict_get c ''prix_dh'') = None) \<longrightarrow> sorted_asc cands = cands)
         \<and> (\<exists>r\<in>set (take 15 (sorted_asc cands)).
               select_smartphone_candidate cands ''OPPORTUNITE_AchatSmartphone'' brand draw
                 = Inr (Some r))"
proof -
  let ?pv = "priced_values cands"
  let ?pool = "take 15 (sorted_asc cands)"
  have pool: "smartphone_pool cands ''OPPORTUNITE_AchatSmartphone'' brand = Inr ?pool"
    by (rule smartphone_pool_cheapest)
  have srt: "sorted_wrt (\<lambda>a b. py_le (price_or_inf a) (price_or_inf b)) (sorted_asc cands)"
  proof (cases "?pv = []")
    case True
    then have "\<forall>c\<in>set cands. price_or_inf c = PInf"
      by (simp add: priced_values_Nil_iff price_or_inf_def)
    then have "\<forall>a\<in>set cands. \<forall>b\<in>set cands. py_le (price_or_inf a) (price_or_inf b)"
      by (simp add: py_le_def)
    then have "sorted_wrt (\<lambda>a b. py_le (price_or_inf a) (price_or_inf b)) cands"
      by (simp add: sorted_wrt_iff_nth_less)
    then show ?thesis using True by (simp add: sorted_asc_def)
  next
    case False
    have key: "\<forall>x\<in>set ?pv. price_or_inf (fst x) = snd x"
      using priced_values_price [of _ _ cands] by (auto simp: price_or_inf_def)
    have "\<forall>x\<in>set ?pv. fst x \<in> set cands"
      using priced_values_fst [of cands] by auto
    then have "\<forall>x\<in>set ?pv. snd x \<noteq> NaN"
      using priced_values_price [of _ _ cands] assms(2) by (metis prod.collapse)
    then have s1: "sorted_wrt (\<lambda>a b. py_le (snd a) (snd b)) (py_sorted snd ?pv)"
      by (rule sorted_py_sorted)
    have "sorted_wrt (\<lambda>a b. py_le (price_or_inf (fst a)) (price_or_inf (fst b)))
            (py_sorted snd ?pv)"
    proof (rule sorted_wrt_mono_rel [OF _ s1])
      fix a b
      assume "a \<in> set (py_sorted snd ?pv)" "b \<in> set (py_sorted snd ?pv)"
        and "py_le (snd a) (snd b)"
      then show "py_le (price_or_inf (fst a)) (price_or_inf (fst b))"
        using key by (simp add: set_py_sorted)
    qed
    then show ?thesis using False by (simp add: sorted_asc_def sorted_wrt_map)
  qed
  have ms: "(\<exists>c\<in>set cands. safe_cast (dict_get c ''prix_dh'') \<noteq> None) \<longrightarrow>
      mset (sorted_asc cands) = mset (filter (\<lambda>c. safe_cast (dict_get c ''prix_dh'') \<noteq> None) cands)"
  proof
    assume "\<exists>c\<in>set cands. safe_cast (dict_get c ''prix_dh'') \<noteq> None"
    then have ne: "?pv \<noteq> []" by (simp add: priced_values_Nil_iff)
    have "mset (sorted_asc cands) = mset (map fst (py_sorted snd ?pv))"
      using ne by (simp add: sorted_asc_def)
    also have "\<dots> = mset (map fst ?pv)"
      using mset_py_sorted [of snd ?pv] by (metis mset_map)
    also have "\<dots> = mset (filter (\<lambda>c. safe_cast (dict_get c ''prix_dh'') \<noteq> None) cands)"
      by (rule mset_priced_values)
    finally show "mset (sorted_asc cands)
        = mset (filter (\<lambda>c. safe_cast (dict_get c ''prix_dh'') \<noteq> None) cands)" .
  qed
  have same: "(\<forall>c\<in>set cands. safe_cast (dict_get c ''prix_dh'') = None) \<longrightarrow> sorted_asc cands = cands"
    by (simp add: sorted_asc_def priced_values_Nil_iff)
  have ne: "?pool \<noteq> []" using assms(1) pool by (rule smartphone_pool_nonempty)
  then have sel: "\<exists>r\<in>set ?pool.
      select_smartphone_candidate cands ''OPPORTUNITE_AchatSmartphone'' brand draw = Inr (Some r)"
    using assms(1) choice_mem [of ?pool draw]
    by (simp add: select_smartphone_candidate_def pool)
  show ?thesis
    by (intro conjI pool srt ms same sel)
qed

theorem cheapest_pool_witness:
  "[phone_a, phone_b] \<noteq> []
   \<and> safe_cast (dict_get phone_a ''prix_dh'') \<noteq> Some NaN
   \<and> safe_cast (dict_get phone_b ''prix_dh'') \<noteq> Some NaN
   \<and> safe_cast (dict_get phone_a ''prix_dh'') \<noteq> None
   \<and> smartphone_pool [phone_a, phone_b] ''OPPORTUNITE_AchatSmartphone'' ''''
       = Inr (take 15 (sorted_asc [phone_a, phone_b]))
   \<and> mset (sorted_asc [phone_a, phone_b])
       = mset (filter (\<lambda>c. safe_cast (dict_get c ''prix_dh'') \<noteq> None) [phone_a, phone_b])
   \<and> safe_cast (dict_get phone_b ''prix_dh'') = None
   \<and> sorted_asc [phone_b] = [phone_b]
   \<and> (\<exists>r\<in>set (take 15 (sorted_asc [phone_a, phone_b])).
         select_smartphone_candidate [phone_a, phone_b] ''OPPORTUNITE_AchatSmartphone'' '''' 4
           = Inr (Some r))"
proof -
  have h1: "[phone_a, phone_b] \<noteq> []" and h1': "[phone_b] \<noteq> []" by simp_all
  have h2: "\<forall>c\<in>set [phone_a, phone_b]. safe_cast (dict_get c ''prix_dh'') \<noteq> Some NaN"
    and h2': "\<forall>c\<in>set [phone_b]. safe_cast (dict_get c ''prix_dh'') \<noteq> Some NaN"
    by (simp_all add: phone_prices)
  have h3: "\<exists>c\<in>set [phone_a, phone_b]. safe_cast (dict_get c ''prix_dh'') \<noteq> None"
    and h4: "\<forall>c\<in>set [phone_b]. safe_cast (dict_get c ''prix_dh'') = None"
    by (simp_all add: phone_prices)
  have g1: "safe_cast (dict_get phone_a ''prix_dh'') \<noteq> Some NaN"
    and g2: "safe_cast (dict_get phone_b ''prix_dh'') \<noteq> Some NaN"
    and g3: "safe_cast (dict_get phone_a ''prix_dh'') \<noteq> None" "safe_cast (dict_get phone_b ''prix_dh'') = None"
    by (simp_all add: phone_prices)
  note t1 = cheapest_pool [OF h1 h2, of "''''" 4]
  note t2 = cheapest_pool [OF h1' h2', of "''''" 4]
  have a: "smartphone_pool [phone_a, phone_b] ''OPPORTUNITE_AchatSmartphone'' ''''
       = Inr (take 15 (sorted_asc [phone_a, phone_b]))"
    using t1 by blast
  have b: "mset (sorted_asc [phone_a, phone_b])
       = mset (filter (\<lambda>c. safe_cast (dict_get c ''prix_dh'') \<noteq> None) [phone_a, phone_b])"
    using t1 h3 by blast
  have c: "sorted_asc [phone_b] = [phone_b]"
    using t2 h4 by blast
  have d: "\<exists>r\<in>set (take 15 (sorted_asc [phone_a, phone_b])).
         select_smartphone_candidate [phone_a, phone_b] ''OPPORTUNITE_AchatSmartphone'' '''' 4
           = Inr (Some r)"
    using t1 by blast
  show ?thesis
    by (intro conjI h1 g1 g2 g3 a b c d)
qed

subsection \<open>C4: the thrifty persona gets the cheapest offer\<close>

text \<open>
  C4: for persona \<^verbatim>\<open>PROFIL_Econome\<close> and every non-empty ranked list (whose parseable
  prices are numbers), the selection does not depend on the random draw and returns a
  candidate of the list whose price is the minimum of the parseable prices; an absent
  price counts as \<open>+\<infinity>\<close>, so a candidate without price is chosen only if no candidate
  has a price.
\<close>

theorem econome_selects_minimum:
  assumes "ranked \<noteq> []" and "finite_prices ranked"
  shows "\<exists>chosen\<in>set ranked.
           (\<forall>draw. select_offre ranked ''PROFIL_Econome'' famille draw = Some chosen)
           \<and> (\<forall>c\<in>set ranked. \<forall>q. safe_cast (dict_get c ''prix_dh'') = Some (Fin q) \<longrightarrow>
                 (\<exists>p. safe_cast (dict_get chosen ''prix_dh'') = Some (Fin p) \<and> p \<le> q))
           \<and> (safe_cast (dict_get chosen ''prix_dh'') = None \<longrightarrow>
                 (\<forall>c\<in>set ranked. safe_cast (dict_get c ''prix_dh'') = None))"
proof -
  obtain first rest where r: "ranked = first # rest"
    using assms(1) by (cases ranked) auto
  let ?chosen = "min_from price_or_inf first rest"
  have nn: "price_or_inf first \<noteq> NaN" "\<forall>x\<in>set rest. price_or_inf x \<noteq> NaN"
    using finite_prices_keys(2) [OF assms(2)] r by auto
  have mem: "?chosen \<in> set ranked"
    using min_from_mem [of price_or_inf first rest] r by simp
  have least: "\<forall>c\<in>set ranked. py_le (price_or_inf ?chosen) (price_or_inf c)"
    using min_from_least [OF nn] r by simp
  have sel: "\<forall>draw. select_offre ranked ''PROFIL_Econome'' famille draw = Some ?chosen"
    by (simp add: select_offre_def r)
  have minp: "\<exists>p. safe_cast (dict_get ?chosen ''prix_dh'') = Some (Fin p) \<and> p \<le> q"
    if c: "c \<in> set ranked" and q: "safe_cast (dict_get c ''prix_dh'') = Some (Fin q)" for c q
  proof -
    have "py_le (price_or_inf ?chosen) (Fin q)"
      using least c q by (auto simp: price_or_inf_def)
    then show ?thesis
      using finite_prices_keys(3) [OF assms(2) mem] by (auto simp: py_le_def)
  qed
  have abs: "\<forall>c\<in>set ranked. safe_cast (dict_get c ''prix_dh'') = None"
    if "safe_cast (dict_get ?chosen ''prix_dh'') = None"
  proof
    fix c assume c: "c \<in> set ranked"
    show "safe_cast (dict_get c ''prix_dh'') = None"
    proof (cases "safe_cast (dict_get c ''prix_dh'')")
      case None
      then show ?thesis .
    next
      case (Some x)
      then obtain q where "safe_cast (dict_get c ''prix_dh'') = Some (Fin q)"
        using finite_prices_keys(3) [OF assms(2) c] by auto
      then show ?thesis using minp [OF c] that by auto
    qed
  qed
  have "(\<forall>draw. select_offre ranked ''PROFIL_Econome'' famille draw = Some ?chosen)
      \<and> (\<forall>c\<in>set ranked. \<forall>q. safe_cast (dict_get c ''prix_dh'') = Some (Fin q) \<longrightarrow>
            (\<exists>p. safe_cast (dict_get ?chosen ''prix_dh'') = Some (Fin p) \<and> p \<le> q))
      \<and> (safe_cast (dict_get ?chosen ''prix_dh'') = None \<longrightarrow>
            (\<forall>c\<in>set ranked. safe_cast (dict_get c ''prix_dh'') = None))"
  proof (intro conjI ballI allI impI)
    fix draw
    show "select_offre ranked ''PROFIL_Econome'' famille draw = Some ?chosen"
      using sel by simp
  next
    fix c q
    assume "c \<in> set ranked" "safe_cast (dict_get c ''prix_dh'') = Some (Fin q)"
    then show "\<exists>p. safe_cast (dict_get ?chosen ''prix_dh'') = Some (Fin p) \<and> p \<le> q"
      by (rule minp)
  next
    fix c
    assume "safe_cast (dict_get ?chosen ''prix_dh'') = None" "c \<in> set ranked"
    then show "safe_cast (dict_get c ''prix_dh'') = None"
      using abs by simp
  qed
  then show ?thesis
    using mem by (intro bexI [of _ ?chosen])
qed

theorem econome_selects_minimum_witness:
  "[offer_noprice, offer_500, offer_2000, offer_1000] \<noteq> []
   \<and> finite_prices [offer_noprice, offer_500, offer_2000, offer_1000]
   \<and> (\<exists>chosen\<in>set [offer_noprice, offer_500, offer_2000, offer_1000].
         select_offre [offer_noprice, offer_500, offer_2000, offer_1000] ''PROFIL_Econome''
           ''RISQUE_Churn'' 5 = Some chosen
         \<and> (\<exists>p. safe_cast (dict_get chosen ''prix_dh'') = Some (Fin p) \<and> p \<le> 10))
   \<and> select_offre [offer_noprice, offer_500, offer_2000, offer_1000] ''PROFIL_Econome''
        ''RISQUE_Churn'' 5 = Some offer_2000"
proof -
  let ?l = "[offer_noprice, offer_500, offer_2000, offer_1000]"
  have h1: "?l \<noteq> []" by simp
  have h2: "finite_prices ?l" by (simp add: finite_prices_def offer_prices)
  have m: "offer_2000 \<in> set ?l" by simp
  have e: "select_offre ?l ''PROFIL_Econome'' ''RISQUE_Churn'' 5 = Some offer_2000"
    by (simp add: select_offre_def offer_price_keys)
  obtain chosen where c: "chosen \<in> set ?l"
    and s: "\<forall>draw. select_offre ?l ''PROFIL_Econome'' ''RISQUE_Churn'' draw = Some chosen"
    and least: "\<forall>c\<in>set ?l. \<forall>q. safe_cast (dict_get c ''prix_dh'') = Some (Fin q) \<longrightarrow>
                 (\<exists>p. safe_cast (dict_get chosen ''prix_dh'') = Some (Fin p) \<and> p \<le> q)"
    using econome_selects_minimum [OF h1 h2, of "''RISQUE_Churn''"] by blast
  have p: "\<exists>p. safe_cast (dict_get chosen ''prix_dh'') = Some (Fin p) \<and> p \<le> 10"
    using least m offer_prices(2) by blast
  have "select_offre ?l ''PROFIL_Econome'' ''RISQUE_Churn'' 5 = Some chosen"
    using s by simp
  then have ex: "\<exists>chosen\<in>set ?l. select_offre ?l ''PROFIL_Econome'' ''RISQUE_Churn'' 5 = Some chosen
         \<and> (\<exists>p. safe_cast (dict_get chosen ''prix_dh'') = Some (Fin p) \<and> p \<le> 10)"
    using c p by (intro bexI [of _ chosen] conjI)
  show ?thesis
    by (intro conjI h1 h2 ex e)
qed

subsection \<open>C6: the ranking rules\<close>

text \<open>
  C6: when famille is \<^verbatim>\<open>USAGE_Internet\<close> and the persona is \<^verbatim>\<open>PROFIL_Internet\<close> or
  \<^verbatim>\<open>PROFIL_ReseauxSociaux\<close>, \<^verbatim>\<open>_rank_offres\<close> returns the candidates rearranged in
  descending order of data volume; otherwise, when famille starts with \<^verbatim>\<open>RISQUE_\<close> or
  the persona starts with \<^verbatim>\<open>CHURN_\<close> or is \<^verbatim>\<open>PROFIL_Econome\<close>, it returns them rearranged
  in ascending order of price, an absent price counting as 0; otherwise it returns the
  incoming list unchanged. The two orders are stated for keys that are not NaN.
\<close>

theorem rank_offres_rules:
  "(rule_volume persona famille \<longrightarrow> (\<forall>c\<in>set cands. volume_mb c \<noteq> NaN) \<longrightarrow>
      mset (rank_offres cands persona famille cta) = mset cands
      \<and> sorted_wrt (\<lambda>a b. py_le (volume_mb b) (volume_mb a))
           (rank_offres cands persona famille cta))
   \<and> (\<not> rule_volume persona famille \<and> rule_price persona famille \<longrightarrow>
        (\<forall>c\<in>set cands. price_or_0 c \<noteq> NaN) \<longrightarrow>
      mset (rank_offres cands persona famille cta) = mset cands
      \<and> sorted_wrt (\<lambda>a b. py_le (price_or_0 a) (price_or_0 b))
           (rank_offres cands persona famille cta)
      \<and> (\<forall>c\<in>set cands. safe_cast (dict_get c ''prix_dh'') = None \<longrightarrow> price_or_0 c = Fin 0))
   \<and> (\<not> rule_volume persona famille \<and> \<not> rule_price persona famille \<longrightarrow>
      rank_offres cands persona famille cta = cands)"
proof (intro conjI impI)
  assume "rule_volume persona famille"
  then have r: "rank_offres cands persona famille cta = py_sorted_rev volume_mb cands"
    by (auto simp: rank_offres_def rule_volume_def py_sorted_rev_def py_sorted_def)
  show "mset (rank_offres cands persona famille cta) = mset cands"
    by (simp add: r mset_py_sorted_rev)
  assume "\<forall>c\<in>set cands. volume_mb c \<noteq> NaN"
  then show "sorted_wrt (\<lambda>a b. py_le (volume_mb b) (volume_mb a))
      (rank_offres cands persona famille cta)"
    unfolding r by (rule sorted_py_sorted_rev)
next
  assume "\<not> rule_volume persona famille \<and> rule_price persona famille"
  then have r: "rank_offres cands persona famille cta = py_sorted price_or_0 cands"
    by (auto simp: rank_offres_def rule_volume_def rule_price_def py_sorted_def)
  show "mset (rank_offres cands persona famille cta) = mset cands"
    by (simp add: r mset_py_sorted)
  show "\<forall>c\<in>set cands. safe_cast (dict_get c ''prix_dh'') = None \<longrightarrow> price_or_0 c = Fin 0"
    by (simp add: price_or_0_absent)
  assume "\<forall>c\<in>set cands. price_or_0 c \<noteq> NaN"
  then show "sorted_wrt (\<lambda>a b. py_le (price_or_0 a) (price_or_0 b))
      (rank_offres cands persona famille cta)"
    unfolding r by (rule sorted_py_sorted)
next
  assume "\<not> rule_volume persona famille \<and> \<not> rule_price persona famille"
  then show "rank_offres cands persona famille cta = cands"
    by (auto simp: rank_offres_def rule_volume_def rule_price_def)
qed

text \<open>
  An instance: volumes 500, 2000, 1000 become 2000, 1000, 500; prices 50, 10, 30 become
  10, 30, 50; with a persona and a famille outside both rules the order is kept.
\<close>

theorem rank_offres_rules_witness:
  "rule_volume ''PROFIL_Internet'' ''USAGE_Internet''
   \<and> volume_mb offer_500 \<noteq> NaN \<and> volume_mb offer_2000 \<noteq> NaN \<and> volume_mb offer_1000 \<noteq> NaN
   \<and> sorted_wrt (\<lambda>a b. py_le (volume_mb b) (volume_mb a))
        (rank_offres [offer_500, offer_2000, offer_1000] ''PROFIL_Internet'' ''USAGE_Internet'' ''*3'')
   \<and> rank_offres [offer_500, offer_2000, offer_1000] ''PROFIL_Internet'' ''USAGE_Internet'' ''*3''
       = [offer_2000, offer_1000, offer_500]
   \<and> \<not> rule_volume ''CHURN_Competiteur'' ''RISQUE_Churn''
   \<and> rule_price ''CHURN_Competiteur'' ''RISQUE_Churn''
   \<and> price_or_0 offer_500 \<noteq> NaN \<and> price_or_0 offer_2000 \<noteq> NaN \<and> price_or_0 offer_1000 \<noteq> NaN
   \<and> sorted_wrt (\<lambda>a b. py_le (price_or_0 a) (price_or_0 b))
        (rank_offres [offer_500, offer_2000, offer_1000] ''CHURN_Competiteur'' ''RISQUE_Churn'' ''*3'')
   \<and> rank_offres [offer_500, offer_2000, offer_1000] ''CHURN_Competiteur'' ''RISQUE_Churn'' ''*3''
       = [offer_2000, offer_1000, offer_500]
   \<and> \<not> rule_volume ''PROFIL_Voix'' ''USAGE_Voix'' \<and> \<not> rule_price ''PROFIL_Voix'' ''USAGE_Voix''
   \<and> rank_offres [offer_500, offer_2000, offer_1000] ''PROFIL_Voix'' ''USAGE_Voix'' ''*3''
       = [offer_500, offer_2000, offer_1000]"
proof -
  let ?l = "[offer_500, offer_2000, offer_1000]"
  have v: "rule_volume ''PROFIL_Internet'' ''USAGE_Internet''"
    by (simp add: rule_volume_def)
  have vn: "volume_mb offer_500 \<noteq> NaN" "volume_mb offer_2000 \<noteq> NaN" "volume_mb offer_1000 \<noteq> NaN"
    by (simp_all add: offer_volumes)
  then have vn': "\<forall>c\<in>set ?l. volume_mb c \<noteq> NaN" by simp
  have a: "sorted_wrt (\<lambda>a b. py_le (volume_mb b) (volume_mb a))
      (rank_offres ?l ''PROFIL_Internet'' ''USAGE_Internet'' ''*3'')"
    using rank_offres_rules [of "''PROFIL_Internet''" "''USAGE_Internet''" ?l "''*3''"] v vn'
    by blast
  have a': "rank_offres ?l ''PROFIL_Internet'' ''USAGE_Internet'' ''*3''
      = [offer_2000, offer_1000, offer_500]"
    by (simp add: rank_offres_def py_sorted_rev_def py_sorted_def offer_volumes)
  have p: "\<not> rule_volume ''CHURN_Competiteur'' ''RISQUE_Churn''"
    "rule_price ''CHURN_Competiteur'' ''RISQUE_Churn''"
    by (simp_all add: rule_volume_def rule_price_def)
  have pn: "price_or_0 offer_500 \<noteq> NaN" "price_or_0 offer_2000 \<noteq> NaN" "price_or_0 offer_1000 \<noteq> NaN"
    by (simp_all add: offer_price_keys)
  then have pn': "\<forall>c\<in>set ?l. price_or_0 c \<noteq> NaN" by simp
  have b: "sorted_wrt (\<lambda>a b. py_le (price_or_0 a) (price_or_0 b))
      (rank_offres ?l ''CHURN_Competiteur'' ''RISQUE_Churn'' ''*3'')"
    using rank_offres_rules [of "''CHURN_Competiteur''" "''RISQUE_Churn''" ?l "''*3''"] p pn'
    by blast
  have b': "rank_offres ?l ''CHURN_Competiteur'' ''RISQUE_Churn'' ''*3''
      = [offer_2000, offer_1000, offer_500]"
    by (simp add: rank_offres_def py_sorted_def offer_price_keys)
  have d: "\<not> rule_volume ''PROFIL_Voix'' ''USAGE_Voix''" "\<not> rule_price ''PROFIL_Voix'' ''USAGE_Voix''"
    by (simp_all add: rule_volume_def rule_price_def)
  have c: "rank_offres ?l ''PROFIL_Voix'' ''USAGE_Voix'' ''*3'' = ?l"
    using rank_offres_rules [of "''PROFIL_Voix''" "''USAGE_Voix''" ?l "''*3''"] d by blast
  show ?thesis
    by (intro conjI v vn a a' p pn b b' d c)
qed

subsection \<open>C5: the resolver falls back to the local catalogue\<close>

text \<open>
  C5: when the vector adapter is unavailable, raises or returns no results for the two
  queries of the request (the one on cta and famille, then the one on cta alone),
  \<^verbatim>\<open>_query_offre\<close> returns exactly the catalogue records that match both cta and
  famille or, if there is none, those that match the cta alone, in ascending order of
  price, an absent price counting as 0, so that no record with a positive price stands
  before a record without price. Other queries of the adapter may well succeed.
  The order is stated for prices that are not NaN.
\<close>

theorem resolver_falls_back_to_catalog:
  assumes "query_yields_nothing svc (offres_collection svc)
             [(''type'', ''offre''), (''cta'', cta), (''famille'', famille)]"
    and "query_yields_nothing svc (offres_collection svc) [(''type'', ''offre''), (''cta'', cta)]"
    and "\<forall>c\<in>set (offres (catalog svc)). price_or_0 c \<noteq> NaN"
  shows "mset (query_offre svc famille cta)
           = mset (if filter (\<lambda>c. dict_get c ''cta'' = Some cta \<and> dict_get c ''famille'' = Some famille)
                        (offres (catalog svc)) \<noteq> []
                   then filter (\<lambda>c. dict_get c ''cta'' = Some cta \<and> dict_get c ''famille'' = Some famille)
                          (offres (catalog svc))
                   else filter (\<lambda>c. dict_get c ''cta'' = Some cta) (offres (catalog svc)))
         \<and> sorted_wrt (\<lambda>a b. py_le (price_or_0 a) (price_or_0 b)) (query_offre svc famille cta)
         \<and> (\<forall>c\<in>set (query_offre svc famille cta).
               safe_cast (dict_get c ''prix_dh'') = None \<longrightarrow> price_or_0 c = Fin 0)
         \<and> sorted_wrt (\<lambda>a b. safe_cast (dict_get b ''prix_dh'') = None \<longrightarrow>
                          (\<forall>p. safe_cast (dict_get a ''prix_dh'') = Some (Fin p) \<longrightarrow> p \<le> 0))
             (query_offre svc famille cta)"
proof -
  let ?strict = "filter (\<lambda>c. dict_get c ''cta'' = Some cta \<and> dict_get c ''famille'' = Some famille)
                   (offres (catalog svc))"
  let ?fallback = "filter (\<lambda>c. dict_get c ''cta'' = Some cta) (offres (catalog svc))"
  let ?chosen = "if ?strict \<noteq> [] then ?strict else ?fallback"
  have q: "query_offre svc famille cta = py_sorted price_or_0 ?chosen"
    using query_offre_falls_back [OF assms(1,2)] by (simp add: local_offres_def Let_def)
  have "\<forall>c\<in>set ?chosen. price_or_0 c \<noteq> NaN"
    using assms(3) by auto
  then have "sorted_wrt (\<lambda>a b. py_le (price_or_0 a) (price_or_0 b)) (py_sorted price_or_0 ?chosen)"
    by (rule sorted_py_sorted)
  then have s: "sorted_wrt (\<lambda>a b. py_le (price_or_0 a) (price_or_0 b)) (query_offre svc famille cta)"
    by (simp only: q)
  have m: "mset (query_offre svc famille cta) = mset ?chosen"
    by (simp only: q mset_py_sorted)
  have z: "\<forall>c\<in>set (query_offre svc famille cta).
      safe_cast (dict_get c ''prix_dh'') = None \<longrightarrow> price_or_0 c = Fin 0"
    by (simp add: price_or_0_absent)
  show ?thesis
    by (intro conjI m s z absent_before_positive [OF s])
qed

text \<open>
  An instance: the backend holds a smartphone but no offer, no offer of the catalogue has
  famille \<^verbatim>\<open>RISQUE_Churn\<close>, so the three offers of cta \<^verbatim>\<open>*3\<close> come back, cheapest first.
\<close>

theorem resolver_falls_back_to_catalog_witness:
  "query_yields_nothing svc_three (offres_collection svc_three)
     [(''type'', ''offre''), (''cta'', ''*3''), (''famille'', ''RISQUE_Churn'')]
   \<and> query_yields_nothing svc_three (offres_collection svc_three)
        [(''type'', ''offre''), (''cta'', ''*3'')]
   \<and> \<not> adapter_silent svc_three
   \<and> price_or_0 offer_500 \<noteq> NaN \<and> price_or_0 offer_2000 \<noteq> NaN \<and> price_or_0 offer_1000 \<noteq> NaN
   \<and> sorted_wrt (\<lambda>a b. py_le (price_or_0 a) (price_or_0 b))
        (query_offre svc_three ''RISQUE_Churn'' ''*3'')
   \<and> query_offre svc_three ''RISQUE_Churn'' ''*3'' = [offer_2000, offer_1000, offer_500]"
proof -
  have s1: "query_yields_nothing svc_three (offres_collection svc_three)
      [(''type'', ''offre''), (''cta'', ''*3''), (''famille'', ''RISQUE_Churn'')]"
    and s2: "query_yields_nothing svc_three (offres_collection svc_three)
      [(''type'', ''offre''), (''cta'', ''*3'')]"
    and ns: "\<not> adapter_silent svc_three"
    by (rule svc_three_offers_nothing)+
  have pn: "price_or_0 offer_500 \<noteq> NaN" "price_or_0 offer_2000 \<noteq> NaN" "price_or_0 offer_1000 \<noteq> NaN"
    by (simp_all add: offer_price_keys)
  then have pn': "\<forall>c\<in>set (offres (catalog svc_three)). price_or_0 c \<noteq> NaN"
    by (simp add: svc_three_def)
  have a: "sorted_wrt (\<lambda>a b. py_le (price_or_0 a) (price_or_0 b))
      (query_offre svc_three ''RISQUE_Churn'' ''*3'')"
    using resolver_falls_back_to_catalog [OF s1 s2 pn'] by blast
  have "local_offres svc_three ''RISQUE_Churn'' ''*3'' = [offer_2000, offer_1000, offer_500]"
    by (simp add: local_offres_def svc_three_def offer_keys offer_price_keys py_sorted_def)
  then have b: "query_offre svc_three ''RISQUE_Churn'' ''*3'' = [offer_2000, offer_1000, offer_500]"
    using query_offre_falls_back [OF s1 s2] by simp
  show ?thesis
    by (intro conjI s1 s2 ns pn a b)
qed

subsection \<open>C8: no candidate from any source\<close>

text \<open>
  C8: when the catalogue is empty and the vector backend yields nothing, both compose
  operations still return a payload; its offer context holds the generic name only
  (\<^verbatim>\<open>Pass <cta>\<close> for offers, \<^verbatim>\<open>Smartphone\<close> for equipment), without numeric field, and
  there is no promotional price.
\<close>

theorem compose_without_candidates:
  assumes "adapter_silent svc"
    and "offres (catalog svc) = []" and "smartphones (catalog svc) = []"
  shows "(\<exists>pl. compose_offre svc today persona famille cta draw = Inr pl
            \<and> p_offer_context pl = [''offre'' \<mapsto> JStr (''Pass '' @ cta)]
            \<and> p_promo_context pl = None)
         \<and> (\<exists>pl. compose_smartphone svc today persona famille hset_brand draw = Inr pl
            \<and> p_offer_context pl = [''offre'' \<mapsto> JStr ''Smartphone'']
            \<and> p_promo_context pl = None)"
proof -
  have o: "query_offre svc famille cta = []"
    using assms(1,2) by (simp add: query_offre_silent local_offres_def py_sorted_def)
  have s: "query_smartphone svc (norm_brand hset_brand) = Inr []"
    using assms(1,3) by (simp add: query_smartphone_silent local_smartphones_def py_sorted_def)
  have "\<exists>pl. compose_offre svc today persona famille cta draw = Inr pl
      \<and> p_offer_context pl = [''offre'' \<mapsto> JStr (''Pass '' @ cta)] \<and> p_promo_context pl = None"
    by (simp add: compose_offre_def o rank_offres_def select_offre_def base_llm_payload_def
        pick_discount_def Let_def)
  moreover have "\<exists>pl. compose_smartphone svc today persona famille hset_brand draw = Inr pl
      \<and> p_offer_context pl = [''offre'' \<mapsto> JStr ''Smartphone''] \<and> p_promo_context pl = None"
    by (simp add: compose_smartphone_def s select_smartphone_candidate_def smartphone_payload_def
        base_llm_payload_def pick_discount_def Let_def)
  ultimately show ?thesis by (rule conjI)
qed

theorem compose_without_candidates_witness:
  "adapter_silent svc_empty
   \<and> offres (catalog svc_empty) = [] \<and> smartphones (catalog svc_empty) = []
   \<and> (\<exists>pl. compose_offre svc_empty (2026, 11) ''PROFIL_Econome'' ''RISQUE_Churn'' ''*3'' 0 = Inr pl
        \<and> p_offer_context pl = [''offre'' \<mapsto> JStr ''Pass *3'']
        \<and> p_promo_context pl = None)
   \<and> (\<exists>pl. compose_smartphone svc_empty (2026, 11) ''OPPORTUNITE_AchatSmartphone''
              ''OPPORTUNITE_Achat_Equipement'' ''iPhone'' 0 = Inr pl
        \<and> p_offer_context pl = [''offre'' \<mapsto> JStr ''Smartphone'']
        \<and> p_promo_context pl = None)"
proof -
  have s: "adapter_silent svc_empty" by (rule silent_examples)
  have e: "offres (catalog svc_empty) = []" "smartphones (catalog svc_empty) = []"
    by (simp_all add: svc_empty_def)
  note t1 = compose_without_candidates [OF s e, of "(2026, 11)" "''PROFIL_Econome''"
      "''RISQUE_Churn''" "''*3''" 0 "''iPhone''"]
  note t2 = compose_without_candidates [OF s e, of "(2026, 11)" "''OPPORTUNITE_AchatSmartphone''"
      "''OPPORTUNITE_Achat_Equipement''" "''*3''" 0 "''iPhone''"]
  have a: "\<exists>pl. compose_offre svc_empty (2026, 11) ''PROFIL_Econome'' ''RISQUE_Churn'' ''*3'' 0 = Inr pl
        \<and> p_offer_context pl = [''offre'' \<mapsto> JStr ''Pass *3'']
        \<and> p_promo_context pl = None"
    using t1 by simp
  have b: "\<exists>pl. compose_smartphone svc_empty (2026, 11) ''OPPORTUNITE_AchatSmartphone''
              ''OPPORTUNITE_Achat_Equipement'' ''iPhone'' 0 = Inr pl
        \<and> p_offer_context pl = [''offre'' \<mapsto> JStr ''Smartphone'']
        \<and> p_promo_context pl = None"
    using t2 by simp
  show ?thesis
    by (intro conjI s e a b)
qed

subsection \<open>C1: an absent price in the price sorts and in the output\<close>

text \<open>
  C1 says that the price sorts of \<^verbatim>\<open>_rank_offres\<close> and of the local fallback treat a
  record without parseable price as lowest priority, never as zero. Both sort on the key
  \<^verbatim>\<open>self._safe_cast(item.get("prix_dh")) or 0\<close>: the offer without price has the key 0
  and comes first, before the offer priced 10.
\<close>

theorem absent_price_sorts_first_counterexample:
  "safe_cast (dict_get offer_noprice ''prix_dh'') = None
   \<and> safe_cast (dict_get offer_2000 ''prix_dh'') = Some (Fin 10)
   \<and> price_or_0 offer_noprice = Fin 0
   \<and> rank_offres [offer_2000, offer_noprice] ''PROFIL_Econome'' ''RISQUE_Churn'' ''*3''
       = [offer_noprice, offer_2000]
   \<and> local_offres svc_noprice ''USAGE_Internet'' ''*3'' = [offer_noprice, offer_2000]"
  by (simp add: offer_prices offer_price_keys offer_keys rank_offres_def local_offres_def
      svc_noprice_def py_sorted_def)

text \<open>
  C1 as amended: the ascending-price rule of \<^verbatim>\<open>_rank_offres\<close> and the sort of the local
  fallback return the same records (as a multiset: the candidates, respectively the
  catalogue records selected by cta and famille), ordered by their price with an absent
  or unparseable price counting as 0, so that no record with a positive price stands
  before a record without price; the offer context leaves out an absent price, volume,
  minutes, SMS count or validity instead of rendering it as zero. The orders are stated
  for prices that are not NaN.
\<close>

theorem absent_price_counts_as_zero:
  "(\<not> rule_volume persona famille \<and> rule_price persona famille \<longrightarrow>
      (\<forall>c\<in>set cands. price_or_0 c \<noteq> NaN) \<longrightarrow>
      mset (rank_offres cands persona famille cta) = mset cands
      \<and> sorted_wrt (\<lambda>a b. py_le (price_or_0 a) (price_or_0 b))
          (rank_offres cands persona famille cta)
      \<and> sorted_wrt (\<lambda>a b. safe_cast (dict_get b ''prix_dh'') = None \<longrightarrow>
                       (\<forall>p. safe_cast (dict_get a ''prix_dh'') = Some (Fin p) \<longrightarrow> p \<le> 0))
          (rank_offres cands persona famille cta))
   \<and> ((\<forall>c\<in>set (offres (catalog svc)). price_or_0 c \<noteq> NaN) \<longrightarrow>
      mset (local_offres svc famille2 cta2)
        = mset (if filter (\<lambda>c. dict_get c ''cta'' = Some cta2 \<and> dict_get c ''famille'' = Some famille2)
                     (offres (catalog svc)) \<noteq> []
                then filter (\<lambda>c. dict_get c ''cta'' = Some cta2 \<and> dict_get c ''famille'' = Some famille2)
                       (offres (catalog svc))
                else filter (\<lambda>c. dict_get c ''cta'' = Some cta2) (offres (catalog svc)))
      \<and> sorted_wrt (\<lambda>a b. py_le (price_or_0 a) (price_or_0 b)) (local_offres svc famille2 cta2)
      \<and> sorted_wrt (\<lambda>a b. safe_cast (dict_get b ''prix_dh'') = None \<longrightarrow>
                       (\<forall>p. safe_cast (dict_get a ''prix_dh'') = Some (Fin p) \<longrightarrow> p \<le> 0))
          (local_offres svc famille2 cta2))
   \<and> (fill_offer chosen name0 = Inr (offer, price) \<longrightarrow>
        (safe_cast (dict_get chosen ''prix_dh'') = None \<longrightarrow> offer ''prix_dh'' = None)
        \<and> (fmt_volume (dict_get chosen ''volume'') = Inr None \<longrightarrow> offer ''volume'' = None)
        \<and> (fmt_minutes (dict_get chosen ''minutes'') = Inr None \<longrightarrow> offer ''minutes'' = None)
        \<and> (nonempty (dict_get chosen ''sms'') = None \<longrightarrow> offer ''sms'' = None)
        \<and> (nonempty (dict_get chosen ''validite_jours'') = None \<longrightarrow> offer ''validite'' = None))"
proof -
  have rank: "mset (rank_offres cands persona famille cta) = mset cands
      \<and> sorted_wrt (\<lambda>a b. py_le (price_or_0 a) (price_or_0 b))
          (rank_offres cands persona famille cta)
      \<and> sorted_wrt (\<lambda>a b. safe_cast (dict_get b ''prix_dh'') = None \<longrightarrow>
                       (\<forall>p. safe_cast (dict_get a ''prix_dh'') = Some (Fin p) \<longrightarrow> p \<le> 0))
          (rank_offres cands persona famille cta)"
    if "\<not> rule_volume persona famille \<and> rule_price persona famille"
      and nn: "\<forall>c\<in>set cands. price_or_0 c \<noteq> NaN"
  proof -
    have r: "rank_offres cands persona famille cta = py_sorted price_or_0 cands"
      using that(1) by (auto simp: rank_offres_def rule_volume_def rule_price_def py_sorted_def)
    have s: "sorted_wrt (\<lambda>a b. py_le (price_or_0 a) (price_or_0 b))
        (rank_offres cands persona famille cta)"
      using sorted_py_sorted [OF nn] by (simp add: r)
    have m: "mset (rank_offres cands persona famille cta) = mset cands"
      by (simp add: r mset_py_sorted)
    show ?thesis
      by (intro conjI m s absent_before_positive [OF s])
  qed
  let ?strict = "filter (\<lambda>c. dict_get c ''cta'' = Some cta2 \<and> dict_get c ''famille'' = Some famille2)
                   (offres (catalog svc))"
  let ?fallback = "filter (\<lambda>c. dict_get c ''cta'' = Some cta2) (offres (catalog svc))"
  let ?chosen = "if ?strict \<noteq> [] then ?strict else ?fallback"
  have loc: "mset (local_offres svc famille2 cta2) = mset ?chosen
      \<and> sorted_wrt (\<lambda>a b. py_le (price_or_0 a) (price_or_0 b)) (local_offres svc famille2 cta2)
      \<and> sorted_wrt (\<lambda>a b. safe_cast (dict_get b ''prix_dh'') = None \<longrightarrow>
                       (\<forall>p. safe_cast (dict_get a ''prix_dh'') = Some (Fin p) \<longrightarrow> p \<le> 0))
          (local_offres svc famille2 cta2)"
    if nn: "\<forall>c\<in>set (offres (catalog svc)). price_or_0 c \<noteq> NaN"
  proof -
    have l: "local_offres svc famille2 cta2 = py_sorted price_or_0 ?chosen"
      by (simp add: local_offres_def Let_def)
    have "\<forall>c\<in>set ?chosen. price_or_0 c \<noteq> NaN" using nn by auto
    then have "sorted_wrt (\<lambda>a b. py_le (price_or_0 a) (price_or_0 b))
        (py_sorted price_or_0 ?chosen)"
      by (rule sorted_py_sorted)
    then have s: "sorted_wrt (\<lambda>a b. py_le (price_or_0 a) (price_or_0 b))
        (local_offres svc famille2 cta2)"
      by (simp only: l)
    have m: "mset (local_offres svc famille2 cta2) = mset ?chosen"
      by (simp only: l mset_py_sorted)
    show ?thesis
      by (intro conjI m s absent_before_positive [OF s])
  qed
  have fill: "(safe_cast (dict_get chosen ''prix_dh'') = None \<longrightarrow> offer ''prix_dh'' = None)
        \<and> (fmt_volume (dict_get chosen ''volume'') = Inr None \<longrightarrow> offer ''volume'' = None)
        \<and> (fmt_minutes (dict_get chosen ''minutes'') = Inr None \<longrightarrow> offer ''minutes'' = None)
        \<and> (nonempty (dict_get chosen ''sms'') = None \<longrightarrow> offer ''sms'' = None)
        \<and> (nonempty (dict_get chosen ''validite_jours'') = None \<longrightarrow> offer ''validite'' = None)"
    if fo: "fill_offer chosen name0 = Inr (offer, price)"
  proof -
    obtain volume minutes sms validite
      where v: "fmt_volume (dict_get chosen ''volume'') = Inr volume"
        and m: "fmt_minutes (dict_get chosen ''minutes'') = Inr minutes"
        and s: "int_of_cell_opt (dict_get chosen ''sms'') = Inr sms"
        and d: "int_of_cell_opt (dict_get chosen ''validite_jours'') = Inr validite"
        and o: "offer = filled_context chosen name0 volume minutes sms validite"
      using fill_offer_Inr [OF fo] by blast
    have "safe_cast (dict_get chosen ''prix_dh'') = None \<Longrightarrow> offer ''prix_dh'' = None"
      by (simp add: o filled_context_def put_other put_same)
    moreover have "fmt_volume (dict_get chosen ''volume'') = Inr None \<Longrightarrow> offer ''volume'' = None"
      using v by (simp add: o filled_context_def put_other put_same nonempty_def)
    moreover have "fmt_minutes (dict_get chosen ''minutes'') = Inr None \<Longrightarrow> offer ''minutes'' = None"
      using m by (simp add: o filled_context_def put_other put_same nonempty_def)
    moreover have "nonempty (dict_get chosen ''sms'') = None \<Longrightarrow> offer ''sms'' = None"
      using s by (simp add: o filled_context_def put_other put_same int_of_cell_opt_def)
    moreover have "nonempty (dict_get chosen ''validite_jours'') = None \<Longrightarrow> offer ''validite'' = None"
      using d by (simp add: o filled_context_def put_other put_same int_of_cell_opt_def)
    ultimately show ?thesis by blast
  qed
  show ?thesis
  proof (intro conjI impI)
    assume a: "\<not> rule_volume persona famille \<and> rule_price persona famille"
      and n: "\<forall>c\<in>set cands. price_or_0 c \<noteq> NaN"
    show "mset (rank_offres cands persona famille cta) = mset cands"
      using rank [OF a n] by blast
    show "sorted_wrt (\<lambda>a b. py_le (price_or_0 a) (price_or_0 b))
        (rank_offres cands persona famille cta)"
      using rank [OF a n] by blast
    show "sorted_wrt (\<lambda>a b. safe_cast (dict_get b ''prix_dh'') = None \<longrightarrow>
                       (\<forall>p. safe_cast (dict_get a ''prix_dh'') = Some (Fin p) \<longrightarrow> p \<le> 0))
          (rank_offres cands persona famille cta)"
      using rank [OF a n] by blast
  next
    assume n: "\<forall>c\<in>set (offres (catalog svc)). price_or_0 c \<noteq> NaN"
    show "mset (local_offres svc famille2 cta2) = mset ?chosen"
      using loc [OF n] by blast
    show "sorted_wrt (\<lambda>a b. py_le (price_or_0 a) (price_or_0 b)) (local_offres svc famille2 cta2)"
      using loc [OF n] by blast
    show "sorted_wrt (\<lambda>a b. safe_cast (dict_get b ''prix_dh'') = None \<longrightarrow>
                       (\<forall>p. safe_cast (dict_get a ''prix_dh'') = Some (Fin p) \<longrightarrow> p \<le> 0))
          (local_offres svc famille2 cta2)"
      using loc [OF n] by blast
  next
    assume f: "fill_offer chosen name0 = Inr (offer, price)"
    show "safe_cast (dict_get chosen ''prix_dh'') = None \<Longrightarrow> offer ''prix_dh'' = None"
      using fill [OF f] by blast
    show "fmt_volume (dict_get chosen ''volume'') = Inr None \<Longrightarrow> offer ''volume'' = None"
      using fill [OF f] by blast
    show "fmt_minutes (dict_get chosen ''minutes'') = Inr None \<Longrightarrow> offer ''minutes'' = None"
      using fill [OF f] by blast
    show "nonempty (dict_get chosen ''sms'') = None \<Longrightarrow> offer ''sms'' = None"
      using fill [OF f] by blast
    show "nonempty (dict_get chosen ''validite_jours'') = None \<Longrightarrow> offer ''validite'' = None"
      using fill [OF f] by blast
  qed
qed

theorem absent_price_counts_as_zero_witness:
  "\<not> rule_volume ''PROFIL_Econome'' ''RISQUE_Churn'' \<and> rule_price ''PROFIL_Econome'' ''RISQUE_Churn''
   \<and> price_or_0 offer_2000 \<noteq> NaN \<and> price_or_0 offer_noprice \<noteq> NaN
   \<and> mset (rank_offres [offer_2000, offer_noprice] ''PROFIL_Econome'' ''RISQUE_Churn'' ''*3'')
       = mset [offer_2000, offer_noprice]
   \<and> sorted_wrt (\<lambda>a b. py_le (price_or_0 a) (price_or_0 b))
        (rank_offres [offer_2000, offer_noprice] ''PROFIL_Econome'' ''RISQUE_Churn'' ''*3'')
   \<and> rank_offres [offer_2000, offer_noprice] ''PROFIL_Econome'' ''RISQUE_Churn'' ''*3''
       = [offer_noprice, offer_2000]
   \<and> sorted_wrt (\<lambda>a b. py_le (price_or_0 a) (price_or_0 b))
        (local_offres svc_noprice ''USAGE_Internet'' ''*3'')
   \<and> local_offres svc_noprice ''USAGE_Internet'' ''*3'' = [offer_noprice, offer_2000]
   \<and> safe_cast (dict_get offer_noprice ''prix_dh'') = None
   \<and> fill_offer offer_noprice ''Pass *3'' = Inr ([''offre'' \<mapsto> JStr ''Pass X''], None)
   \<and> fmt_volume (dict_get offer_noprice ''volume'') = Inr None
   \<and> fmt_minutes (dict_get offer_noprice ''minutes'') = Inr None
   \<and> [''offre'' \<mapsto> JStr ''Pass X''] ''prix_dh'' = None
   \<and> [''offre'' \<mapsto> JStr ''Pass X''] ''volume'' = None
   \<and> [''offre'' \<mapsto> JStr ''Pass X''] ''minutes'' = None"
proof -
  let ?l = "[offer_2000, offer_noprice]"
  let ?o = "[''offre'' \<mapsto> JStr ''Pass X'']"
  have p: "\<not> rule_volume ''PROFIL_Econome'' ''RISQUE_Churn''"
    "rule_price ''PROFIL_Econome'' ''RISQUE_Churn''"
    by (simp_all add: rule_volume_def rule_price_def)
  have pn: "price_or_0 offer_2000 \<noteq> NaN" "price_or_0 offer_noprice \<noteq> NaN"
    by (simp_all add: offer_price_keys)
  then have pn1: "\<forall>c\<in>set ?l. price_or_0 c \<noteq> NaN"
    and pn2: "\<forall>c\<in>set (offres (catalog svc_noprice)). price_or_0 c \<noteq> NaN"
    by (simp_all add: svc_noprice_def)
  have ab: "safe_cast (dict_get offer_noprice ''prix_dh'') = None" by (rule offer_prices)
  have cells: "dict_get offer_noprice ''volume'' = None" "dict_get offer_noprice ''minutes'' = None"
    "dict_get offer_noprice ''sms'' = None" "dict_get offer_noprice ''validite_jours'' = None"
    "dict_get offer_noprice ''zone'' = None" "dict_get offer_noprice ''link'' = None"
    "dict_get offer_noprice ''libelle'' = Some ''Pass X''"
    by (simp_all add: offer_noprice_def dict_get_def)
  have fv: "fmt_volume (dict_get offer_noprice ''volume'') = Inr None"
    and fm: "fmt_minutes (dict_get offer_noprice ''minutes'') = Inr None"
    by (simp_all add: cells fmt_volume_def fmt_minutes_def)
  have f: "fill_offer offer_noprice ''Pass *3'' = Inr (?o, None)"
    by (simp add: fill_offer_def filled_context_def ab cells fmt_volume_def fmt_minutes_def
        int_of_cell_opt_def nonempty_def put_def)
  note t = absent_price_counts_as_zero [where persona = "''PROFIL_Econome''"
      and famille = "''RISQUE_Churn''" and cands = ?l and cta = "''*3''" and svc = svc_noprice
      and ?famille2.0 = "''USAGE_Internet''" and ?cta2.0 = "''*3''"
      and chosen = offer_noprice and ?name0.0 = "''Pass *3''" and offer = ?o and price = None]
  have m: "mset (rank_offres ?l ''PROFIL_Econome'' ''RISQUE_Churn'' ''*3'') = mset ?l"
    using t p pn1 by blast
  have a: "sorted_wrt (\<lambda>a b. py_le (price_or_0 a) (price_or_0 b))
      (rank_offres ?l ''PROFIL_Econome'' ''RISQUE_Churn'' ''*3'')"
    using t p pn1 by blast
  have a': "rank_offres ?l ''PROFIL_Econome'' ''RISQUE_Churn'' ''*3'' = [offer_noprice, offer_2000]"
    by (simp add: rank_offres_def py_sorted_def offer_price_keys)
  have b: "sorted_wrt (\<lambda>a b. py_le (price_or_0 a) (price_or_0 b))
      (local_offres svc_noprice ''USAGE_Internet'' ''*3'')"
    using t pn2 by blast
  have b': "local_offres svc_noprice ''USAGE_Internet'' ''*3'' = [offer_noprice, offer_2000]"
    by (simp add: local_offres_def svc_noprice_def offer_keys offer_price_keys py_sorted_def)
  have o1: "?o ''prix_dh'' = None" using t f ab by blast
  have o2: "?o ''volume'' = None" using t f fv by blast
  have o3: "?o ''minutes'' = None" using t f fm by blast
  show ?thesis
    by (intro conjI p pn m a a' b b' ab f fv fm o1 o2 o3)
qed

end
